theory Spec2Isabelle
  imports Complex_Main
begin

section \<open>JavaScript values\<close>

text \<open>
  The values the tool handlers of \<^verbatim>\<open>index.ts\<close> compute with are JSON values (the
  \<^verbatim>\<open>arguments\<close> of a \<^verbatim>\<open>tools/call\<close> request, the body of a reply of the SQL execution
  service) together with \<^verbatim>\<open>undefined\<close> and \<^verbatim>\<open>NaN\<close>. A JSON number is a finite decimal
  literal and is kept as an exact rational; the rounding of IEEE doubles is not part of
  this development. An object is the list of its own properties; a property read takes
  the first binding of a key.
\<close>

datatype jsval =
    Undefined
  | Null
  | Bool bool
  | Num rat
  | NaN
  | Str string
  | Arr "jsval list"
  | Obj "(string \<times> jsval) list"

text \<open>ToBoolean, as used by \<^verbatim>\<open>if (x)\<close> and \<^verbatim>\<open>x || y\<close>.\<close>

fun truthy :: "jsval \<Rightarrow> bool" where
  "truthy Undefined = False"
| "truthy Null = False"
| "truthy (Bool b) = b"
| "truthy (Num n) = (n \<noteq> 0)"
| "truthy NaN = False"
| "truthy (Str s) = (s \<noteq> [])"
| "truthy (Arr xs) = True"
| "truthy (Obj kvs) = True"

text \<open>\<^verbatim>\<open>a || b\<close>\<close>

definition or_else :: "jsval \<Rightarrow> jsval \<Rightarrow> jsval" where
  "or_else a b = (if truthy a then a else b)"

definition nullish :: "jsval \<Rightarrow> bool" where
  "nullish v = (v = Undefined \<or> v = Null)"

text \<open>
  \<^verbatim>\<open>v.k\<close> for a receiver that is neither \<^verbatim>\<open>null\<close> nor \<^verbatim>\<open>undefined\<close>: an object yields
  the property or \<^verbatim>\<open>undefined\<close>; the primitives and arrays that occur here have none of
  the property names the handlers read.
\<close>

fun jsget :: "jsval \<Rightarrow> string \<Rightarrow> jsval" where
  "jsget (Obj kvs) k = (case map_of kvs k of Some v \<Rightarrow> v | None \<Rightarrow> Undefined)"
| "jsget v k = Undefined"

fun is_array :: "jsval \<Rightarrow> bool" where
  "is_array (Arr xs) = True"
| "is_array v = False"

text \<open>\<^verbatim>\<open>xs.join(sep)\<close> on an array of strings.\<close>

fun join :: "string \<Rightarrow> string list \<Rightarrow> string" where
  "join sep [] = []"
| "join sep [x] = x"
| "join sep (x # y # ys) = x @ sep @ join sep (y # ys)"

section \<open>The validator (zod)\<close>

datatype path_elem = Key string | Idx nat

text \<open>
  An issue of a \<^verbatim>\<open>ZodError\<close>: its path, what was expected and the type (or, for an enum,
  the value) that was received.
\<close>

datatype zissue =
    InvalidType "path_elem list" string string
  | InvalidEnumValue "path_elem list" "string list" string


text \<open>
  The schema constructors \<^verbatim>\<open>index.ts\<close> uses: \<^verbatim>\<open>z.string()\<close>, \<^verbatim>\<open>z.number()\<close>,
  \<^verbatim>\<open>z.boolean()\<close>, \<^verbatim>\<open>z.any()\<close>, \<^verbatim>\<open>z.array(t)\<close>, \<^verbatim>\<open>z.enum([...])\<close>, \<^verbatim>\<open>z.object({...})\<close>,
  \<^verbatim>\<open>t.optional()\<close> and \<^verbatim>\<open>t.default(v)\<close>.
\<close>

datatype zschema =
    ZString
  | ZNumber
  | ZBoolean
  | ZAny
  | ZArray zschema
  | ZEnum "string list"
  | ZObject "(string \<times> zschema) list"
  | ZOptional zschema
  | ZDefault zschema jsval

text \<open>
  \<^verbatim>\<open>util.joinValues\<close>: what an enum reports as expected when the value is not a string,
  each value between single quotes.
\<close>

definition joinValues :: "string list \<Rightarrow> string" where
  "joinValues vals = join '' | '' (map (\<lambda>v. [CHR 0x27] @ v @ [CHR 0x27]) vals)"

fun parsedType :: "jsval \<Rightarrow> string" where
  "parsedType Undefined = ''undefined''"
| "parsedType Null = ''null''"
| "parsedType (Bool b) = ''boolean''"
| "parsedType (Num n) = ''number''"
| "parsedType NaN = ''nan''"
| "parsedType (Str s) = ''string''"
| "parsedType (Arr xs) = ''array''"
| "parsedType (Obj kvs) = ''object''"

text \<open>
  Parsing collects the issues of every field and element and builds the output: an
  object keeps the keys of its shape only (unknown keys are stripped), a key being set
  when the input has it or its parsed value is not \<^verbatim>\<open>undefined\<close>.
\<close>

fun zparse :: "path_elem list \<Rightarrow> zschema \<Rightarrow> jsval \<Rightarrow> zissue list \<times> jsval"
  and zparse_elems :: "path_elem list \<Rightarrow> zschema \<Rightarrow> nat \<Rightarrow> jsval list \<Rightarrow> zissue list \<times> jsval list"
  and zparse_fields ::
    "path_elem list \<Rightarrow> (string \<times> zschema) list \<Rightarrow> (string \<times> jsval) list
      \<Rightarrow> zissue list \<times> (string \<times> jsval) list"
where
  "zparse p ZString v =
     (case v of Str s \<Rightarrow> ([], v) | _ \<Rightarrow> ([InvalidType p ''string'' (parsedType v)], v))"
| "zparse p ZNumber v =
     (case v of Num n \<Rightarrow> ([], v) | _ \<Rightarrow> ([InvalidType p ''number'' (parsedType v)], v))"
| "zparse p ZBoolean v =
     (case v of Bool b \<Rightarrow> ([], v) | _ \<Rightarrow> ([InvalidType p ''boolean'' (parsedType v)], v))"
| "zparse p ZAny v = ([], v)"
| "zparse p (ZArray t) v =
     (case v of
        Arr xs \<Rightarrow> (case zparse_elems p t 0 xs of (iss, ys) \<Rightarrow> (iss, Arr ys))
      | _ \<Rightarrow> ([InvalidType p ''array'' (parsedType v)], v))"
| "zparse p (ZEnum vals) v =
     (case v of
        Str s \<Rightarrow> (if s \<in> set vals then ([], v) else ([InvalidEnumValue p vals s], v))
      | _ \<Rightarrow> ([InvalidType p (joinValues vals) (parsedType v)], v))"
| "zparse p (ZObject fs) v =
     (case v of
        Obj kvs \<Rightarrow> (case zparse_fields p fs kvs of (iss, out) \<Rightarrow> (iss, Obj out))
      | _ \<Rightarrow> ([InvalidType p ''object'' (parsedType v)], v))"
| "zparse p (ZOptional t) v = (if v = Undefined then ([], Undefined) else zparse p t v)"
| "zparse p (ZDefault t d) v = (if v = Undefined then zparse p t d else zparse p t v)"
| "zparse_elems p t i [] = ([], [])"
| "zparse_elems p t i (x # xs) =
     (case zparse (p @ [Idx i]) t x of (i1, y) \<Rightarrow>
      case zparse_elems p t (Suc i) xs of (i2, ys) \<Rightarrow> (i1 @ i2, y # ys))"
| "zparse_fields p [] kvs = ([], [])"
| "zparse_fields p ((k, t) # fs) kvs =
     (case zparse (p @ [Key k]) t (jsget (Obj kvs) k) of (i1, y) \<Rightarrow>
      case zparse_fields p fs kvs of (i2, out) \<Rightarrow>
        (i1 @ i2, if map_of kvs k \<noteq> None \<or> y \<noteq> Undefined then (k, y) # out else out))"

section \<open>Errors and the runtime\<close>

text \<open>
  What a handler can throw: a \<^verbatim>\<open>ZodError\<close> from \<^verbatim>\<open>parse\<close>, an \<^verbatim>\<open>McpError\<close> (code and
  message), a \<^verbatim>\<open>TypeError\<close> of the engine for a property read of \<^verbatim>\<open>null\<close> or
  \<^verbatim>\<open>undefined\<close> (the receiver and the property), and a plain \<^verbatim>\<open>Error\<close> with its message.
\<close>

datatype error =
    ZodError "zissue list"
  | McpError int string
  | TypeError jsval string
  | JsError string

text \<open>
  The conversions that belong to the JavaScript engine and to the libraries, not to this
  repository, are parameters: \<^verbatim>\<open>String(v)\<close> as template literals and \<^verbatim>\<open>new Error(v)\<close>
  apply it to a value that is not a string, the numeric value of a string, array or
  object operand of \<^verbatim>\<open>*\<close> and \<^verbatim>\<open>-\<close> (\<open>None\<close> for \<^verbatim>\<open>NaN\<close>), \<^verbatim>\<open>JSON.stringify(v, null, 2)\<close>,
  and the \<^verbatim>\<open>message\<close> of a \<^verbatim>\<open>TypeError\<close>, a \<^verbatim>\<open>ZodError\<close> and an \<^verbatim>\<open>McpError\<close>.
\<close>

record runtime =
  ToString :: "jsval \<Rightarrow> string"
  ToNumber_other :: "jsval \<Rightarrow> rat option"
  JSON_stringify :: "jsval \<Rightarrow> string"
  TypeError_message :: "jsval \<Rightarrow> string \<Rightarrow> string"
  ZodError_message :: "zissue list \<Rightarrow> string"
  McpError_message :: "int \<Rightarrow> string \<Rightarrow> string"

fun error_message :: "runtime \<Rightarrow> error \<Rightarrow> string" where
  "error_message rt (ZodError iss) = ZodError_message rt iss"
| "error_message rt (McpError c m) = McpError_message rt c m"
| "error_message rt (TypeError v k) = TypeError_message rt v k"
| "error_message rt (JsError m) = m"

text \<open>\<^verbatim>\<open>`${v}`\<close>: a string is itself.\<close>

fun to_string :: "runtime \<Rightarrow> jsval \<Rightarrow> string" where
  "to_string rt (Str s) = s"
| "to_string rt v = ToString rt v"

text \<open>\<^verbatim>\<open>v.k\<close> for any receiver: reading a property of \<^verbatim>\<open>null\<close> or \<^verbatim>\<open>undefined\<close> throws.\<close>

definition read_prop :: "jsval \<Rightarrow> string \<Rightarrow> error + jsval" where
  "read_prop v k = (if nullish v then Inl (TypeError v k) else Inr (jsget v k))"

text \<open>\<^verbatim>\<open>z.object({...}).parse(args)\<close>\<close>

definition parse :: "zschema \<Rightarrow> jsval \<Rightarrow> error + jsval" where
  "parse sch v = (case zparse [] sch v of (iss, out) \<Rightarrow> if iss = [] then Inr out else Inl (ZodError iss))"

section \<open>The SQL proxy\<close>

text \<open>
  One call of the execution service: the \<^verbatim>\<open>X-API-KEY\<close> header and the JSON body
  \<^verbatim>\<open>{sql, params}\<close> of the POST. \<^verbatim>\<open>axios.post\<close> either rejects with an error that has a
  message, or resolves with the parsed body \<^verbatim>\<open>response.data\<close>.
\<close>

record http_request =
  api_key :: jsval
  sql :: string
  params :: "jsval list"

datatype http_result = Failed string | Replied jsval

text \<open>
  The execution service answers a request in a state of the backing store and moves to
  the next state. The environment of a request holds the runtime, the value of
  \<^verbatim>\<open>storage.getStore()\<close>, the \<^verbatim>\<open>defaultApiKey\<close> of the proxy and the service. The state a
  handler runs in is the store together with the requests sent so far.
\<close>

record 'db env =
  rt :: runtime
  store :: jsval
  defaultApiKey :: string
  service :: "'db \<Rightarrow> http_request \<Rightarrow> http_result \<times> 'db"

type_synonym 'db st = "'db \<times> http_request list"

type_synonym ('db, 'a) io = "'db st \<Rightarrow> (error + 'a) \<times> 'db st"

definition returnE :: "'a \<Rightarrow> ('db, 'a) io" where
  "returnE a s = (Inr a, s)"

definition throwE :: "error \<Rightarrow> ('db, 'a) io" where
  "throwE e s = (Inl e, s)"

definition liftE :: "error + 'a \<Rightarrow> ('db, 'a) io" where
  "liftE r s = (r, s)"

text \<open>\<^verbatim>\<open>await\<close> and go on: an error of the first part ends the sequence.\<close>

definition thenE :: "('db, 'a) io \<Rightarrow> ('a \<Rightarrow> ('db, 'b) io) \<Rightarrow> ('db, 'b) io" where
  "thenE m f s = (case m s of (Inl e, s') \<Rightarrow> (Inl e, s') | (Inr a, s') \<Rightarrow> f a s')"

definition request_of :: "'db env \<Rightarrow> string \<Rightarrow> jsval list \<Rightarrow> http_request" where
  "request_of env q ps =
     \<lparr>api_key = or_else (store env) (Str (defaultApiKey env)), sql = q, params = ps\<rparr>"

text \<open>
  The body of the \<^verbatim>\<open>try\<close> block of \<^verbatim>\<open>SqlProxy.execute\<close> after the POST has resolved with
  \<^verbatim>\<open>data\<close>.
\<close>

definition interpret_reply :: "runtime \<Rightarrow> jsval \<Rightarrow> error + (jsval \<times> jsval)" where
  "interpret_reply r data =
     (case read_prop data ''status'' of
        Inl e \<Rightarrow> Inl e
      | Inr st \<Rightarrow>
          if st = Str ''error''
          then Inl (JsError (to_string r (or_else (jsget data ''message'') (Str ''Unknown database error''))))
          else if is_array data then Inr (data, Arr []) else Inr (data, Undefined))"

text \<open>The \<^verbatim>\<open>catch\<close> block of \<^verbatim>\<open>SqlProxy.execute\<close>: whatever was thrown is wrapped.\<close>

definition wrap_failure :: "runtime \<Rightarrow> error + 'a \<Rightarrow> error + 'a" where
  "wrap_failure r tried =
     (case tried of
        Inl e \<Rightarrow> Inl (JsError (''Database operation failed: '' @ error_message r e))
      | Inr x \<Rightarrow> Inr x)"

text \<open>
  \<^verbatim>\<open>SqlProxy.execute(sql, params)\<close>: the POST with the key of the request (the default key
  when the request-scoped one is falsy), then the \<^verbatim>\<open>try\<close> body; the rejection of the POST
  is thrown inside the \<^verbatim>\<open>try\<close> as well.
\<close>

definition execute :: "'db env \<Rightarrow> string \<Rightarrow> jsval list \<Rightarrow> ('db, jsval \<times> jsval) io" where
  "execute env q ps s =
     (case service env (fst s) (request_of env q ps) of
        (res, db') \<Rightarrow>
          (wrap_failure (rt env)
             (case res of
                Failed m \<Rightarrow> Inl (JsError m)
              | Replied data \<Rightarrow> interpret_reply (rt env) data),
           (db', snd s @ [request_of env q ps])))"

section \<open>Responses\<close>

record content_item =
  ctype :: string
  ctext :: string

text \<open>\<^verbatim>\<open>isError\<close> is \<open>None\<close> when the envelope has no such key.\<close>

record response =
  content :: "content_item list"
  isError :: "bool option"

definition text_response :: "string \<Rightarrow> response" where
  "text_response t = \<lparr>content = [\<lparr>ctype = ''text'', ctext = t\<rparr>], isError = None\<rparr>"

definition error_response :: "string \<Rightarrow> response" where
  "error_response errorMessage =
     \<lparr>content = [\<lparr>ctype = ''text'', ctext = ''Error: '' @ errorMessage\<rparr>], isError = Some True\<rparr>"

text \<open>\<^verbatim>\<open>ErrorCode.InvalidRequest\<close> and \<^verbatim>\<open>ErrorCode.MethodNotFound\<close> of the JSON-RPC protocol.\<close>

definition InvalidRequest :: int where
  "InvalidRequest = - 32600"

definition MethodNotFound :: int where
  "MethodNotFound = - 32601"

section \<open>The inquiry handlers\<close>

subsection \<open>\<^verbatim>\<open>create_inquiry\<close>\<close>

definition create_inquiry_schema :: zschema where
  "create_inquiry_schema = ZObject
     [(''name'', ZString),
      (''mobile_no'', ZString),
      (''date'', ZString),
      (''father_name'', ZOptional ZString),
      (''mother_name'', ZOptional ZString),
      (''email'', ZOptional ZString),
      (''address'', ZOptional ZString),
      (''note'', ZOptional ZString),
      (''response'', ZOptional ZString),
      (''class_id'', ZOptional ZNumber),
      (''source'', ZOptional ZString),
      (''status'', ZOptional ZString)]"

definition create_inquiry_sql :: string where
  "create_inquiry_sql = ''INSERT INTO enquiry \<newline>          (name, mobile_no, date, father_name, mother_name, email, address, note, response, class_id, reference_id, status, branch_id, created_by, created_at)\<newline>          VALUES (?, ?, ?, ?, ?, ?, ?, ?, ?, ?, ?, ?, ?, ?, NOW())''"

definition create_inquiry :: "'db env \<Rightarrow> jsval \<Rightarrow> ('db, response) io" where
  "create_inquiry env args =
     thenE (liftE (parse create_inquiry_schema args)) (\<lambda>parsed.
     thenE (execute env create_inquiry_sql
              [jsget parsed ''name'',
               jsget parsed ''mobile_no'',
               jsget parsed ''date'',
               or_else (jsget parsed ''father_name'') Null,
               or_else (jsget parsed ''mother_name'') Null,
               or_else (jsget parsed ''email'') Null,
               or_else (jsget parsed ''address'') Null,
               or_else (jsget parsed ''note'') Null,
               or_else (jsget parsed ''response'') Null,
               or_else (jsget parsed ''class_id'') Null,
               or_else (jsget parsed ''source'') Null,
               or_else (jsget parsed ''status'') (Str ''active''),
               Num 1,
               Num 1]) (\<lambda>(result, fields).
     returnE (text_response
       (''Inquiry created successfully. ID: '' @ to_string (rt env) (jsget result ''insertId'')))))"

subsection \<open>\<^verbatim>\<open>update_inquiry\<close>\<close>

definition update_inquiry_schema :: zschema where
  "update_inquiry_schema = ZObject
     [(''id'', ZNumber),
      (''name'', ZOptional ZString),
      (''mobile_no'', ZOptional ZString),
      (''father_name'', ZOptional ZString),
      (''mother_name'', ZOptional ZString),
      (''email'', ZOptional ZString),
      (''address'', ZOptional ZString),
      (''response'', ZOptional ZString),
      (''note'', ZOptional ZString),
      (''status'', ZOptional ZString)]"

text \<open>
  \<^verbatim>\<open>if (parsed.k) { updates.push("k = ?"); values.push(parsed.k); }\<close>, on the pair of the
  two arrays.
\<close>

definition push_if_set :: "jsval \<Rightarrow> string list \<times> jsval list \<Rightarrow> string \<Rightarrow> string list \<times> jsval list" where
  "push_if_set parsed uv k =
     (if truthy (jsget parsed k)
      then (fst uv @ [k @ '' = ?''], snd uv @ [jsget parsed k])
      else uv)"

text \<open>The eight fields the handler tests, in the order of its \<^verbatim>\<open>if\<close> statements.\<close>

definition update_inquiry_columns :: "string list" where
  "update_inquiry_columns =
     [''name'', ''mobile_no'', ''father_name'', ''mother_name'', ''email'', ''address'',
      ''response'', ''note'']"

definition update_inquiry_clauses :: "jsval \<Rightarrow> string list \<times> jsval list" where
  "update_inquiry_clauses parsed =
     (case foldl (push_if_set parsed) ([], []) update_inquiry_columns of
        (updates, vals) \<Rightarrow> (updates @ [''updated_at = NOW()''], vals))"

definition update_inquiry :: "'db env \<Rightarrow> jsval \<Rightarrow> ('db, response) io" where
  "update_inquiry env args =
     thenE (liftE (parse update_inquiry_schema args)) (\<lambda>parsed.
       case update_inquiry_clauses parsed of
         (updates, vals) \<Rightarrow>
           if length updates \<le> 1
           then returnE (text_response ''No fields to update provided.'')
           else
             thenE (execute env (''UPDATE enquiry SET '' @ join '', '' updates @ '' WHERE id = ?'')
                      (vals @ [jsget parsed ''id''])) (\<lambda>(result, fields).
               if jsget result ''affectedRows'' = Num 0
               then throwE (McpError InvalidRequest
                      (''Inquiry with ID '' @ to_string (rt env) (jsget parsed ''id'') @ '' not found''))
               else returnE (text_response
                      (''Inquiry '' @ to_string (rt env) (jsget parsed ''id'') @ '' updated successfully.''))))"

subsection \<open>\<^verbatim>\<open>list_inquiries\<close>\<close>

text \<open>
  The \<^verbatim>\<open>switch\<close> has two cases labelled \<^verbatim>\<open>"list_inquiries"\<close>; a \<^verbatim>\<open>switch\<close> runs the first
  one that matches, which is this one.
\<close>

definition list_inquiries_schema :: zschema where
  "list_inquiries_schema = ZObject
     [(''branch_id'', ZOptional ZNumber),
      (''limit'', ZDefault ZNumber (Num 50)),
      (''offset'', ZDefault ZNumber (Num 0)),
      (''search'', ZOptional ZString),
      (''status'', ZOptional ZString),
      (''source_id'', ZOptional ZNumber),
      (''class_id'', ZOptional ZNumber),
      (''start_date'', ZOptional ZString),
      (''end_date'', ZOptional ZString),
      (''created_by'', ZOptional ZNumber)]"

definition list_inquiries_base :: string where
  "list_inquiries_base = ''SELECT e.*, c.name as class_name, er.name as source_name, resp.name as status_name \<newline>                             FROM enquiry e \<newline>                             LEFT JOIN class c ON e.class_id = c.id \<newline>                             LEFT JOIN enquiry_reference er ON e.reference_id = er.id \<newline>                             LEFT JOIN enquiry_response resp ON e.response = resp.id\<newline>                             WHERE 1=1''"

text \<open>
  \<^verbatim>\<open>if (c) { query += fragment; params.push(...ps); }\<close>, on the pair of the query and its
  parameters.
\<close>

definition add_filter :: "string \<times> jsval list \<Rightarrow> jsval \<times> string \<times> jsval list \<Rightarrow> string \<times> jsval list" where
  "add_filter qp f =
     (case f of (c, fragment, ps) \<Rightarrow>
        if truthy c then (fst qp @ fragment, snd qp @ ps) else qp)"

text \<open>The eight filters of the handler, in the order of its \<^verbatim>\<open>if\<close> statements.\<close>

definition list_inquiries_filters :: "runtime \<Rightarrow> jsval \<Rightarrow> (jsval \<times> string \<times> jsval list) list" where
  "list_inquiries_filters r parsed =
     [(jsget parsed ''branch_id'', '' AND e.branch_id = ?'', [jsget parsed ''branch_id'']),
      (jsget parsed ''search'',
         '' AND (e.name LIKE ? OR e.mobile_no LIKE ? OR e.father_name LIKE ?)'',
         [Str (''%'' @ to_string r (jsget parsed ''search'') @ ''%''),
          Str (''%'' @ to_string r (jsget parsed ''search'') @ ''%''),
          Str (''%'' @ to_string r (jsget parsed ''search'') @ ''%'')]),
      (jsget parsed ''status'', '' AND e.status = ?'', [jsget parsed ''status'']),
      (jsget parsed ''source_id'', '' AND e.reference_id = ?'', [jsget parsed ''source_id'']),
      (jsget parsed ''class_id'', '' AND e.class_id = ?'', [jsget parsed ''class_id'']),
      (jsget parsed ''start_date'', '' AND e.date >= ?'', [jsget parsed ''start_date'']),
      (jsget parsed ''end_date'', '' AND e.date <= ?'', [jsget parsed ''end_date'']),
      (jsget parsed ''created_by'', '' AND e.created_by = ?'', [jsget parsed ''created_by''])]"

definition list_inquiries_query :: "runtime \<Rightarrow> jsval \<Rightarrow> string \<times> jsval list" where
  "list_inquiries_query r parsed =
     (case foldl add_filter (list_inquiries_base, []) (list_inquiries_filters r parsed) of
        (query, ps) \<Rightarrow>
          (query @ '' ORDER BY e.date DESC, e.id DESC LIMIT ? OFFSET ?'',
           ps @ [jsget parsed ''limit'', jsget parsed ''offset'']))"

definition list_inquiries :: "'db env \<Rightarrow> jsval \<Rightarrow> ('db, response) io" where
  "list_inquiries env args =
     thenE (liftE (parse list_inquiries_schema args)) (\<lambda>parsed.
     thenE (execute env (fst (list_inquiries_query (rt env) parsed))
              (snd (list_inquiries_query (rt env) parsed))) (\<lambda>(rows, fields).
     returnE (text_response (JSON_stringify (rt env) rows))))"

section \<open>\<^verbatim>\<open>create_purchase\<close>\<close>

text \<open>
  The operands of \<^verbatim>\<open>*\<close> and \<^verbatim>\<open>-\<close> are converted to numbers: \<^verbatim>\<open>undefined\<close> is \<^verbatim>\<open>NaN\<close>,
  \<^verbatim>\<open>null\<close> is 0, a boolean is 0 or 1; the conversion of a string, an array or an object
  is the runtime's. \<open>None\<close> stands for \<^verbatim>\<open>NaN\<close>.
\<close>

fun ToNumber :: "runtime \<Rightarrow> jsval \<Rightarrow> rat option" where
  "ToNumber r Undefined = None"
| "ToNumber r Null = Some 0"
| "ToNumber r (Bool b) = Some (if b then 1 else 0)"
| "ToNumber r (Num n) = Some n"
| "ToNumber r NaN = None"
| "ToNumber r v = ToNumber_other r v"

definition of_number :: "rat option \<Rightarrow> jsval" where
  "of_number x = (case x of None \<Rightarrow> NaN | Some n \<Rightarrow> Num n)"

definition arith :: "(rat \<Rightarrow> rat \<Rightarrow> rat) \<Rightarrow> runtime \<Rightarrow> jsval \<Rightarrow> jsval \<Rightarrow> jsval" where
  "arith f r a b =
     of_number (case ToNumber r a of
                  None \<Rightarrow> None
                | Some x \<Rightarrow> (case ToNumber r b of None \<Rightarrow> None | Some y \<Rightarrow> Some (f x y)))"

text \<open>\<^verbatim>\<open>a * b\<close> and \<^verbatim>\<open>a - b\<close>; \<^verbatim>\<open>a + b\<close> where both operands are numbers.\<close>

definition js_mul :: "runtime \<Rightarrow> jsval \<Rightarrow> jsval \<Rightarrow> jsval" where
  "js_mul = arith (\<lambda>x y. x * y)"

definition js_sub :: "runtime \<Rightarrow> jsval \<Rightarrow> jsval \<Rightarrow> jsval" where
  "js_sub = arith (\<lambda>x y. x - y)"

definition js_add :: "runtime \<Rightarrow> jsval \<Rightarrow> jsval \<Rightarrow> jsval" where
  "js_add = arith (\<lambda>x y. x + y)"

text \<open>The elements a \<^verbatim>\<open>for ... of\<close> loop visits.\<close>

fun elements :: "jsval \<Rightarrow> jsval list" where
  "elements (Arr xs) = xs"
| "elements v = []"

definition create_purchase_schema :: zschema where
  "create_purchase_schema = ZObject
     [(''bill_no'', ZString),
      (''supplier_id'', ZNumber),
      (''store_id'', ZNumber),
      (''date'', ZString),
      (''remarks'', ZOptional ZString),
      (''items'', ZArray ZAny),
      (''prepared_by'', ZOptional ZNumber),
      (''branch_id'', ZOptional ZNumber)]"

text \<open>
  \<^verbatim>\<open>(item.quantity * item.unit_price) - (item.discount || 0)\<close>; the read of
  \<^verbatim>\<open>item.quantity\<close> comes first and throws when the item is \<^verbatim>\<open>null\<close>.
\<close>

definition item_subtotal :: "runtime \<Rightarrow> jsval \<Rightarrow> error + jsval" where
  "item_subtotal r item =
     (case read_prop item ''quantity'' of
        Inl e \<Rightarrow> Inl e
      | Inr quantity \<Rightarrow>
          Inr (js_sub r (js_mul r quantity (jsget item ''unit_price''))
                 (or_else (jsget item ''discount'') (Num 0))))"

text \<open>The first loop: \<^verbatim>\<open>total += subtotal\<close> for each item, \<open>tot\<close> being the total so far.\<close>

fun purchase_total :: "runtime \<Rightarrow> jsval \<Rightarrow> jsval list \<Rightarrow> error + jsval" where
  "purchase_total r tot [] = Inr tot"
| "purchase_total r tot (item # items) =
     (case item_subtotal r item of
        Inl e \<Rightarrow> Inl e
      | Inr subtotal \<Rightarrow> purchase_total r (js_add r tot subtotal) items)"

definition purchase_bill_sql :: string where
  "purchase_bill_sql = ''INSERT INTO purchase_bill (bill_no, supplier_id, store_id, date, remarks, total, discount, paid, due, payment_status, purchase_status, prepared_by, branch_id) \<newline>         VALUES (?, ?, ?, ?, ?, ?, 0, 0, ?, 1, 1, ?, ?)''"

definition purchase_detail_sql :: string where
  "purchase_detail_sql = ''INSERT INTO purchase_bill_details (purchase_bill_id, product_id, unit_price, quantity, discount, sub_total) VALUES (?, ?, ?, ?, ?, ?)''"

definition purchase_stock_sql :: string where
  "purchase_stock_sql = ''UPDATE product SET available_stock = available_stock + ? WHERE id = ?''"

text \<open>The second loop: for each item the detail row, then the stock of its product.\<close>

fun purchase_details :: "'db env \<Rightarrow> jsval \<Rightarrow> jsval list \<Rightarrow> ('db, unit) io" where
  "purchase_details env billId [] = returnE ()"
| "purchase_details env billId (item # items) =
     thenE (liftE (item_subtotal (rt env) item)) (\<lambda>subtotal.
     thenE (execute env purchase_detail_sql
              [billId, jsget item ''product_id'', jsget item ''unit_price'',
               jsget item ''quantity'', or_else (jsget item ''discount'') (Num 0), subtotal]) (\<lambda>r1.
     thenE (execute env purchase_stock_sql
              [jsget item ''quantity'', jsget item ''product_id'']) (\<lambda>r2.
     purchase_details env billId items)))"

definition create_purchase :: "'db env \<Rightarrow> jsval \<Rightarrow> ('db, response) io" where
  "create_purchase env args =
     thenE (liftE (parse create_purchase_schema args)) (\<lambda>parsed.
     thenE (liftE (purchase_total (rt env) (Num 0) (elements (jsget parsed ''items'')))) (\<lambda>tot.
     thenE (execute env purchase_bill_sql
              [jsget parsed ''bill_no'', jsget parsed ''supplier_id'', jsget parsed ''store_id'',
               jsget parsed ''date'', or_else (jsget parsed ''remarks'') (Str []), tot, tot,
               or_else (jsget parsed ''prepared_by'') (Num 1),
               or_else (jsget parsed ''branch_id'') (Num 1)]) (\<lambda>(billResult, fields).
     thenE (purchase_details env (jsget billResult ''insertId'') (elements (jsget parsed ''items''))) (\<lambda>u.
     returnE (text_response
       (''Purchase order created. Bill ID: '' @ to_string (rt env) (jsget billResult ''insertId'')))))))"

section \<open>The reception configuration handlers\<close>

definition reception_config_types :: "string list" where
  "reception_config_types =
     [''call_purpose'', ''complaint_type'', ''enquiry_reference'', ''enquiry_response'',
      ''visitor_purpose'']"

definition list_reception_configs_schema :: zschema where
  "list_reception_configs_schema = ZObject
     [(''type'', ZEnum reception_config_types),
      (''branch_id'', ZOptional ZNumber)]"

definition create_reception_config_schema :: zschema where
  "create_reception_config_schema = ZObject
     [(''type'', ZEnum reception_config_types),
      (''name'', ZString),
      (''branch_id'', ZOptional ZNumber)]"

definition delete_reception_config_schema :: zschema where
  "delete_reception_config_schema = ZObject
     [(''type'', ZEnum reception_config_types),
      (''id'', ZNumber)]"

definition list_reception_configs :: "'db env \<Rightarrow> jsval \<Rightarrow> ('db, response) io" where
  "list_reception_configs env args =
     thenE (liftE (parse list_reception_configs_schema args)) (\<lambda>parsed.
       case add_filter (''SELECT id, name FROM '' @ to_string (rt env) (jsget parsed ''type''), [])
              (jsget parsed ''branch_id'', '' WHERE branch_id = ?'', [jsget parsed ''branch_id''])
       of (query, ps) \<Rightarrow>
         thenE (execute env query ps) (\<lambda>(rows, fields).
         returnE (text_response (JSON_stringify (rt env) rows))))"

definition create_reception_config :: "'db env \<Rightarrow> jsval \<Rightarrow> ('db, response) io" where
  "create_reception_config env args =
     thenE (liftE (parse create_reception_config_schema args)) (\<lambda>parsed.
     thenE (execute env
              (''INSERT INTO '' @ to_string (rt env) (jsget parsed ''type'')
                 @ '' (name, branch_id) VALUES (?, ?)'')
              [jsget parsed ''name'', or_else (jsget parsed ''branch_id'') (Num 1)]) (\<lambda>(result, fields).
     returnE (text_response
       (''Configuration added to '' @ to_string (rt env) (jsget parsed ''type'') @ ''. ID: ''
          @ to_string (rt env) (jsget result ''insertId'')))))"

definition delete_reception_config :: "'db env \<Rightarrow> jsval \<Rightarrow> ('db, response) io" where
  "delete_reception_config env args =
     thenE (liftE (parse delete_reception_config_schema args)) (\<lambda>parsed.
     thenE (execute env
              (''DELETE FROM '' @ to_string (rt env) (jsget parsed ''type'') @ '' WHERE id = ?'')
              [jsget parsed ''id'']) (\<lambda>r.
     returnE (text_response
       (''Configuration '' @ to_string (rt env) (jsget parsed ''id'') @ '' deleted from ''
          @ to_string (rt env) (jsget parsed ''type'') @ ''.''))))"

section \<open>\<^verbatim>\<open>create_product_category\<close>\<close>

definition create_product_category_schema :: zschema where
  "create_product_category_schema = ZObject
     [(''name'', ZString),
      (''branch_id'', ZOptional ZNumber)]"

definition create_product_category :: "'db env \<Rightarrow> jsval \<Rightarrow> ('db, response) io" where
  "create_product_category env args =
     thenE (liftE (parse create_product_category_schema args)) (\<lambda>parsed.
     thenE (execute env ''INSERT INTO product_category (name, branch_id) VALUES (?, ?)''
              [jsget parsed ''name'', or_else (jsget parsed ''branch_id'') (Num 1)]) (\<lambda>(result, fields).
     returnE (text_response
       (''Product category created. ID: '' @ to_string (rt env) (jsget result ''insertId'')))))"

section \<open>The tool-call handler\<close>

text \<open>
  The other cases of the \<^verbatim>\<open>switch\<close>, in the order of the source, each with the shape its
  first statement validates \<^verbatim>\<open>args\<close> against. Every case starts with
  \<^verbatim>\<open>z.object({...}).parse(args)\<close> and calls \<^verbatim>\<open>pool.execute\<close> only after it. The labels
  \<^verbatim>\<open>create_complaint\<close>, \<^verbatim>\<open>list_complaints\<close>, \<^verbatim>\<open>update_complaint\<close>, \<^verbatim>\<open>delete_complaint\<close>,
  \<^verbatim>\<open>create_postal_record\<close>, \<^verbatim>\<open>list_postal_records\<close>, \<^verbatim>\<open>update_postal_record\<close> and
  \<^verbatim>\<open>delete_postal_record\<close> occur twice; the first occurrence is the one that runs.
\<close>

definition other_handlers :: "(string \<times> (string \<times> zschema) list) list" where
  "other_handlers =
     [(''bulk_delete_inquiries'',
        [(''ids'', ZArray ZNumber)]),
      (''list_inquiry_sources'',
        [(''branch_id'', ZOptional ZNumber)]),
      (''list_inquiry_statuses'',
        [(''branch_id'', ZOptional ZNumber)]),
      (''read_inquiry'',
        [(''id'', ZNumber)]),
      (''delete_inquiry'',
        [(''id'', ZNumber)]),
      (''create_inquiry_follow_up'',
        [(''enquiry_id'', ZNumber), (''date'', ZString), (''next_date'', ZOptional ZString),
         (''response'', ZOptional ZString), (''note'', ZOptional ZString),
         (''status'', ZOptional ZString)]),
      (''list_inquiry_follow_ups'',
        [(''enquiry_id'', ZNumber)]),
      (''list_voucher_heads'',
        [(''type'', ZOptional ZString), (''branch_id'', ZOptional ZNumber)]),
      (''create_voucher_head'',
        [(''name'', ZString), (''type'', ZString), (''branch_id'', ZOptional ZNumber)]),
      (''add_income'',
        [(''voucher_head_id'', ZNumber), (''amount'', ZNumber), (''date'', ZString),
         (''description'', ZOptional ZString), (''payment_method'', ZOptional ZString),
         (''ref'', ZOptional ZString), (''account_id'', ZOptional ZString)]),
      (''add_expense'',
        [(''voucher_head_id'', ZNumber), (''amount'', ZNumber), (''date'', ZString),
         (''description'', ZOptional ZString), (''payment_method'', ZOptional ZString),
         (''ref'', ZOptional ZString), (''account_id'', ZOptional ZString)]),
      (''list_transactions'',
        [(''type'', ZOptional ZString), (''start_date'', ZOptional ZString),
         (''end_date'', ZOptional ZString), (''limit'', ZOptional ZNumber)]),
      (''list_accounts'',
        [(''branch_id'', ZOptional ZNumber)]),
      (''create_call_log'',
        [(''name'', ZString), (''number'', ZOptional ZString), (''call_type'', ZString),
         (''purpose_id'', ZOptional ZNumber), (''date'', ZString),
         (''start_time'', ZOptional ZString), (''end_time'', ZOptional ZString),
         (''follow_up'', ZOptional ZString), (''note'', ZOptional ZString)]),
      (''list_call_logs'',
        [(''limit'', ZDefault ZNumber (Num 50)), (''offset'', ZDefault ZNumber (Num 0)),
         (''date_from'', ZOptional ZString), (''date_to'', ZOptional ZString),
         (''call_type'', ZOptional ZString), (''number'', ZOptional ZString)]),
      (''read_call_log'',
        [(''id'', ZNumber)]),
      (''update_call_log'',
        [(''id'', ZNumber), (''name'', ZOptional ZString), (''number'', ZOptional ZString),
         (''call_type'', ZOptional ZString), (''purpose_id'', ZOptional ZNumber),
         (''date'', ZOptional ZString), (''start_time'', ZOptional ZString),
         (''end_time'', ZOptional ZString), (''follow_up'', ZOptional ZString),
         (''note'', ZOptional ZString)]),
      (''delete_call_log'',
        [(''id'', ZNumber)]),
      (''bulk_delete_call_logs'',
        [(''ids'', ZArray ZNumber)]),
      (''create_visitor_log'',
        [(''name'', ZString), (''number'', ZOptional ZString), (''purpose_id'', ZOptional ZNumber),
         (''date'', ZString), (''entry_time'', ZOptional ZString),
         (''exit_time'', ZOptional ZString), (''number_of_visitor'', ZOptional ZNumber),
         (''id_number'', ZOptional ZString), (''token_pass'', ZOptional ZString),
         (''note'', ZOptional ZString)]),
      (''list_visitor_logs'',
        [(''limit'', ZDefault ZNumber (Num 50)), (''offset'', ZDefault ZNumber (Num 0)),
         (''date_from'', ZOptional ZString), (''date_to'', ZOptional ZString),
         (''purpose_id'', ZOptional ZNumber)]),
      (''read_visitor_log'',
        [(''id'', ZNumber)]),
      (''update_visitor_log'',
        [(''id'', ZNumber), (''name'', ZOptional ZString), (''number'', ZOptional ZString),
         (''purpose_id'', ZOptional ZNumber), (''date'', ZOptional ZString),
         (''entry_time'', ZOptional ZString), (''exit_time'', ZOptional ZString),
         (''number_of_visitor'', ZOptional ZNumber), (''id_number'', ZOptional ZString),
         (''token_pass'', ZOptional ZString), (''note'', ZOptional ZString)]),
      (''delete_visitor_log'',
        [(''id'', ZNumber)]),
      (''bulk_delete_visitor_logs'',
        [(''ids'', ZArray ZNumber)]),
      (''create_complaint'',
        [(''complainant_name'', ZString), (''number'', ZOptional ZString),
         (''type_id'', ZOptional ZNumber), (''date'', ZString),
         (''assigned_id'', ZOptional ZNumber), (''note'', ZOptional ZString)]),
      (''list_complaints'',
        [(''limit'', ZDefault ZNumber (Num 50)), (''offset'', ZDefault ZNumber (Num 0)),
         (''type_id'', ZOptional ZNumber), (''date_from'', ZOptional ZString),
         (''date_to'', ZOptional ZString), (''status'', ZOptional ZString)]),
      (''read_complaint'',
        [(''id'', ZNumber)]),
      (''update_complaint'',
        [(''id'', ZNumber), (''complainant_name'', ZOptional ZString), (''number'', ZOptional ZString),
         (''type_id'', ZOptional ZNumber), (''date'', ZOptional ZString),
         (''assigned_id'', ZOptional ZNumber), (''action'', ZOptional ZString),
         (''date_of_solution'', ZOptional ZString), (''note'', ZOptional ZString)]),
      (''delete_complaint'',
        [(''id'', ZNumber)]),
      (''bulk_delete_complaints'',
        [(''ids'', ZArray ZNumber)]),
      (''create_postal_record'',
        [(''sender_title'', ZString), (''receiver_title'', ZString),
         (''reference_no'', ZOptional ZString), (''address'', ZOptional ZString),
         (''date'', ZString), (''type'', ZString), (''confidential'', ZOptional ZBoolean),
         (''note'', ZOptional ZString)]),
      (''list_postal_records'',
        [(''limit'', ZDefault ZNumber (Num 50)), (''offset'', ZDefault ZNumber (Num 0)),
         (''type'', ZOptional ZString), (''date_from'', ZOptional ZString),
         (''date_to'', ZOptional ZString)]),
      (''read_postal_record'',
        [(''id'', ZNumber)]),
      (''update_postal_record'',
        [(''id'', ZNumber), (''sender_title'', ZOptional ZString),
         (''receiver_title'', ZOptional ZString), (''reference_no'', ZOptional ZString),
         (''address'', ZOptional ZString), (''date'', ZOptional ZString),
         (''type'', ZOptional ZString), (''confidential'', ZOptional ZBoolean),
         (''note'', ZOptional ZString)]),
      (''delete_postal_record'',
        [(''id'', ZNumber)]),
      (''bulk_delete_postal_records'',
        [(''ids'', ZArray ZNumber)]),
      (''list_product_categories'',
        [(''branch_id'', ZOptional ZNumber)]),
      (''list_product_units'',
        [(''branch_id'', ZOptional ZNumber)]),
      (''create_product_unit'',
        [(''name'', ZString), (''branch_id'', ZOptional ZNumber)]),
      (''list_product_stores'',
        [(''branch_id'', ZOptional ZNumber)]),
      (''create_product_store'',
        [(''name'', ZString), (''code'', ZString), (''mobileno'', ZOptional ZString),
         (''address'', ZOptional ZString), (''description'', ZOptional ZString),
         (''branch_id'', ZOptional ZNumber)]),
      (''list_product_suppliers'',
        [(''branch_id'', ZOptional ZNumber)]),
      (''create_product_supplier'',
        [(''name'', ZString), (''company_name'', ZOptional ZString), (''mobileno'', ZString),
         (''email'', ZOptional ZString), (''address'', ZOptional ZString),
         (''product_list'', ZOptional ZString), (''branch_id'', ZOptional ZNumber)]),
      (''list_products'',
        [(''category_id'', ZOptional ZNumber), (''branch_id'', ZOptional ZNumber)]),
      (''create_product'',
        [(''name'', ZString), (''code'', ZString), (''category_id'', ZNumber),
         (''purchase_unit_id'', ZNumber), (''sales_unit_id'', ZNumber),
         (''unit_ratio'', ZOptional ZString), (''purchase_price'', ZOptional ZNumber),
         (''sales_price'', ZOptional ZNumber), (''available_stock'', ZOptional ZString),
         (''remarks'', ZOptional ZString), (''branch_id'', ZOptional ZNumber)]),
      (''update_product_stock'',
        [(''product_id'', ZNumber), (''available_stock'', ZString)]),
      (''list_purchases'',
        [(''supplier_id'', ZOptional ZNumber), (''start_date'', ZOptional ZString),
         (''end_date'', ZOptional ZString), (''branch_id'', ZOptional ZNumber),
         (''limit'', ZOptional ZNumber)]),
      (''get_purchase_details'',
        [(''purchase_id'', ZNumber)]),
      (''create_product_issue'',
        [(''role_id'', ZNumber), (''user_id'', ZNumber), (''date_of_issue'', ZString),
         (''due_date'', ZOptional ZString), (''remarks'', ZOptional ZString),
         (''items'', ZArray ZAny), (''prepared_by'', ZOptional ZNumber),
         (''branch_id'', ZOptional ZNumber)]),
      (''list_product_issues'',
        [(''user_id'', ZOptional ZNumber), (''start_date'', ZOptional ZString),
         (''end_date'', ZOptional ZString), (''branch_id'', ZOptional ZNumber),
         (''limit'', ZOptional ZNumber)]),
      (''mark_staff_attendance'',
        [(''staff_id'', ZNumber), (''date'', ZString),
         (''status'', ZEnum [''present'', ''absent'', ''late'', ''half_day'']),
         (''remarks'', ZOptional ZString)]),
      (''get_staff_attendance'',
        [(''staff_id'', ZNumber), (''start_date'', ZOptional ZString),
         (''end_date'', ZOptional ZString)]),
      (''list_staff_attendance_report'',
        [(''date'', ZString), (''end_date'', ZOptional ZString), (''department_id'', ZOptional ZNumber),
         (''branch_id'', ZOptional ZNumber)]),
      (''create_staff_leave'',
        [(''staff_id'', ZNumber), (''leave_category_id'', ZNumber), (''start_date'', ZString),
         (''end_date'', ZString), (''reason'', ZString), (''branch_id'', ZOptional ZNumber)]),
      (''list_staff_leaves'',
        [(''staff_id'', ZOptional ZNumber),
         (''status'', ZOptional (ZEnum [''pending'', ''approved'', ''rejected''])),
         (''start_date'', ZOptional ZString), (''end_date'', ZOptional ZString),
         (''branch_id'', ZOptional ZNumber), (''limit'', ZOptional ZNumber)]),
      (''approve_staff_leave'',
        [(''leave_id'', ZNumber), (''status'', ZEnum [''approved'', ''rejected'']),
         (''remarks'', ZOptional ZString)]),
      (''get_staff_leave_balance'',
        [(''staff_id'', ZNumber), (''leave_category_id'', ZOptional ZNumber)]),
      (''create_student_leave'',
        [(''student_id'', ZNumber), (''start_date'', ZString), (''end_date'', ZString),
         (''reason'', ZString), (''branch_id'', ZOptional ZNumber)]),
      (''list_student_leaves'',
        [(''student_id'', ZOptional ZNumber), (''class_id'', ZOptional ZNumber),
         (''status'', ZOptional (ZEnum [''pending'', ''approved'', ''rejected''])),
         (''start_date'', ZOptional ZString), (''end_date'', ZOptional ZString),
         (''branch_id'', ZOptional ZNumber), (''limit'', ZOptional ZNumber)]),
      (''approve_student_leave'',
        [(''leave_id'', ZNumber), (''status'', ZEnum [''approved'', ''rejected'']),
         (''remarks'', ZOptional ZString)]),
      (''list_leave_categories'',
        [(''branch_id'', ZOptional ZNumber)]),
      (''create_leave_category'',
        [(''name'', ZString), (''total_days'', ZNumber), (''branch_id'', ZOptional ZNumber)]),
      (''list_salary_templates'',
        [(''branch_id'', ZOptional ZNumber)]),
      (''assign_staff_salary'',
        [(''staff_id'', ZNumber), (''salary_template_id'', ZNumber)]),
      (''create_fee_type'',
        [(''name'', ZString), (''description'', ZOptional ZString), (''branch_id'', ZOptional ZNumber)]),
      (''list_fee_types'',
        [(''branch_id'', ZOptional ZNumber)]),
      (''update_fee_type'',
        [(''id'', ZNumber), (''name'', ZOptional ZString), (''description'', ZOptional ZString)]),
      (''delete_fee_type'',
        [(''id'', ZNumber)]),
      (''create_fee_group'',
        [(''name'', ZString), (''description'', ZOptional ZString), (''branch_id'', ZOptional ZNumber)]),
      (''list_fee_groups'',
        [(''branch_id'', ZOptional ZNumber)]),
      (''add_fee_group_details'',
        [(''fee_groups_id'', ZNumber), (''fee_type_id'', ZNumber), (''amount'', ZNumber),
         (''due_date'', ZString)]),
      (''allocate_fees'',
        [(''student_id'', ZNumber), (''group_id'', ZNumber), (''branch_id'', ZOptional ZNumber),
         (''prev_due'', ZOptional ZNumber)]),
      (''collect_fees'',
        [(''allocation_id'', ZNumber), (''type_id'', ZNumber), (''amount'', ZNumber),
         (''discount'', ZOptional ZNumber), (''fine'', ZOptional ZNumber), (''date'', ZString),
         (''method'', ZOptional ZString), (''pay_via'', ZOptional ZNumber),
         (''remarks'', ZOptional ZString)]),
      (''get_student_fee_status'',
        [(''student_id'', ZNumber)]),
      (''get_fee_payment_history'',
        [(''allocation_id'', ZNumber)]),
      (''update_fee_payment'',
        [(''id'', ZNumber), (''amount'', ZOptional ZNumber), (''discount'', ZOptional ZNumber),
         (''fine'', ZOptional ZNumber), (''date'', ZOptional ZString),
         (''remarks'', ZOptional ZString)]),
      (''bulk_collect_fees'',
        [(''payments'', ZArray (ZObject [(''allocation_id'', ZNumber), (''type_id'', ZNumber),
         (''amount'', ZNumber), (''date'', ZString)])), (''branch_id'', ZOptional ZNumber)]),
      (''update_fee_allocation'',
        [(''id'', ZNumber), (''prev_due'', ZNumber)]),
      (''list_payment_methods'',
        [(''branch_id'', ZOptional ZNumber)]),
      (''set_fee_status'',
        [(''student_id'', ZNumber), (''status'', ZEnum [''Paid'', ''Unpaid'']),
         (''date'', ZOptional ZString)]),
      (''create_exam'',
        [(''exam_id'', ZOptional ZNumber), (''name'', ZString), (''term_id'', ZOptional ZNumber),
         (''type_id'', ZOptional ZNumber), (''mark_distribution'', ZOptional (ZArray ZNumber)),
         (''remark'', ZOptional ZString), (''branch_id'', ZOptional ZNumber)]),
      (''list_exams'',
        [(''branch_id'', ZOptional ZNumber)]),
      (''delete_exam'',
        [(''id'', ZNumber)]),
      (''create_exam_term'',
        [(''term_id'', ZOptional ZNumber), (''term_name'', ZString), (''branch_id'', ZOptional ZNumber)]),
      (''list_exam_terms'',
        [(''branch_id'', ZOptional ZNumber)]),
      (''create_exam_hall'',
        [(''hall_id'', ZOptional ZNumber), (''hall_no'', ZString), (''no_of_seats'', ZNumber),
         (''branch_id'', ZOptional ZNumber)]),
      (''list_exam_halls'',
        [(''branch_id'', ZOptional ZNumber)]),
      (''create_grade'',
        [(''grade_id'', ZOptional ZNumber), (''name'', ZString), (''grade_point'', ZNumber),
         (''lower_mark'', ZNumber), (''upper_mark'', ZNumber), (''remark'', ZOptional ZString),
         (''branch_id'', ZOptional ZNumber)]),
      (''list_grades'',
        [(''branch_id'', ZOptional ZNumber)]),
      (''record_marks'',
        [(''student_id'', ZNumber), (''exam_id'', ZNumber), (''subject_id'', ZNumber),
         (''class_id'', ZNumber), (''section_id'', ZNumber), (''mark'', ZNumber),
         (''absent'', ZOptional ZBoolean)]),
      (''get_student_marks'',
        [(''student_id'', ZNumber), (''exam_id'', ZNumber)]),
      (''list_class_marks'',
        [(''class_id'', ZNumber), (''section_id'', ZNumber), (''exam_id'', ZNumber)]),
      (''list_pending_fees'',
        [(''branch_id'', ZOptional ZNumber), (''class_id'', ZOptional ZNumber)]),
      (''list_at_risk_students'',
        [(''class_id'', ZOptional ZNumber), (''exam_id'', ZNumber)]),
      (''get_attendance_report'',
        [(''class_id'', ZNumber), (''section_id'', ZOptional ZNumber), (''date'', ZOptional ZString)]),
      (''list_top_students'',
        [(''class_id'', ZOptional ZNumber), (''exam_id'', ZNumber)]),
      (''get_exam_timetable'',
        [(''class_id'', ZNumber), (''section_id'', ZNumber), (''exam_id'', ZNumber)]),
      (''create_class_timetable'',
        [(''class_id'', ZNumber), (''section_id'', ZNumber), (''subject_id'', ZOptional ZNumber),
         (''teacher_id'', ZOptional ZNumber), (''time_start'', ZString),
         (''time_end'', ZString), (''class_room'', ZOptional ZString), (''day'', ZString),
         (''branch_id'', ZOptional ZNumber), (''is_break'', ZOptional ZBoolean)]),
      (''list_class_timetable'',
        [(''class_id'', ZNumber), (''section_id'', ZNumber)]),
      (''delete_class_timetable'',
        [(''id'', ZNumber)]),
      (''get_teacher_schedule'',
        [(''teacher_id'', ZNumber)]),
      (''create_exam_timetable'',
        [(''exam_id'', ZNumber), (''class_id'', ZNumber), (''section_id'', ZNumber),
         (''subject_id'', ZNumber), (''time_start'', ZString), (''time_end'', ZString),
         (''hall_id'', ZOptional ZNumber), (''exam_date'', ZString),
         (''mark_distribution'', ZOptional ZString), (''branch_id'', ZOptional ZNumber)]),
      (''list_exam_timetable'',
        [(''exam_id'', ZNumber), (''class_id'', ZNumber), (''section_id'', ZNumber)]),
      (''list_students'',
        [(''branch_id'', ZOptional ZNumber), (''class_id'', ZOptional ZNumber),
         (''section_id'', ZOptional ZNumber)]),
      (''get_student'',
        [(''id'', ZNumber)]),
      (''search_students'',
        [(''search'', ZString)]),
      (''create_student'',
        [(''first_name'', ZString), (''last_name'', ZString), (''register_no'', ZString),
         (''admission_date'', ZString), (''gender'', ZOptional ZString),
         (''birthday'', ZOptional ZString), (''mobileno'', ZOptional ZString),
         (''email'', ZOptional ZString), (''parent_id'', ZOptional ZNumber),
         (''branch_id'', ZOptional ZNumber), (''class_id'', ZNumber), (''section_id'', ZNumber),
         (''category_id'', ZOptional ZNumber), (''religion'', ZOptional ZString),
         (''caste'', ZOptional ZString), (''blood_group'', ZOptional ZString),
         (''current_address'', ZOptional ZString), (''permanent_address'', ZOptional ZString)]),
      (''update_student'',
        [(''id'', ZNumber), (''first_name'', ZOptional ZString), (''last_name'', ZOptional ZString),
         (''register_no'', ZOptional ZString), (''admission_date'', ZOptional ZString),
         (''gender'', ZOptional ZString), (''birthday'', ZOptional ZString),
         (''mobileno'', ZOptional ZString), (''email'', ZOptional ZString),
         (''parent_id'', ZOptional ZNumber), (''class_id'', ZOptional ZNumber),
         (''section_id'', ZOptional ZNumber), (''category_id'', ZOptional ZNumber),
         (''religion'', ZOptional ZString), (''caste'', ZOptional ZString),
         (''blood_group'', ZOptional ZString), (''current_address'', ZOptional ZString),
         (''permanent_address'', ZOptional ZString)]),
      (''list_parents'',
        [(''branch_id'', ZOptional ZNumber)]),
      (''get_parent'',
        [(''id'', ZNumber)]),
      (''get_parent_children'',
        [(''parent_id'', ZNumber)]),
      (''create_parent'',
        [(''name'', ZString), (''relation'', ZOptional ZString), (''father_name'', ZOptional ZString),
         (''mother_name'', ZOptional ZString), (''occupation'', ZOptional ZString),
         (''income'', ZOptional ZString), (''education'', ZOptional ZString),
         (''mobileno'', ZOptional ZString), (''email'', ZOptional ZString),
         (''address'', ZOptional ZString), (''city'', ZOptional ZString),
         (''state'', ZOptional ZString), (''branch_id'', ZOptional ZNumber)]),
      (''update_parent'',
        [(''id'', ZNumber), (''name'', ZOptional ZString), (''relation'', ZOptional ZString),
         (''father_name'', ZOptional ZString), (''mother_name'', ZOptional ZString),
         (''occupation'', ZOptional ZString), (''income'', ZOptional ZString),
         (''education'', ZOptional ZString), (''mobileno'', ZOptional ZString),
         (''email'', ZOptional ZString), (''address'', ZOptional ZString),
         (''city'', ZOptional ZString), (''state'', ZOptional ZString)]),
      (''list_staff'',
        [(''branch_id'', ZOptional ZNumber), (''role_id'', ZOptional ZNumber)]),
      (''get_staff'',
        [(''id'', ZNumber)]),
      (''create_staff'',
        [(''name'', ZString), (''sex'', ZOptional ZString), (''designation_id'', ZOptional ZNumber),
         (''department_id'', ZOptional ZNumber), (''joining_date'', ZOptional ZString),
         (''mobileno'', ZOptional ZString), (''email'', ZOptional ZString),
         (''address'', ZOptional ZString), (''qualification'', ZOptional ZString),
         (''experience'', ZOptional ZString), (''branch_id'', ZOptional ZNumber),
         (''role_id'', ZNumber)]),
      (''update_staff'',
        [(''id'', ZNumber), (''name'', ZOptional ZString), (''sex'', ZOptional ZString),
         (''designation_id'', ZOptional ZNumber), (''department_id'', ZOptional ZNumber),
         (''joining_date'', ZOptional ZString), (''mobileno'', ZOptional ZString),
         (''email'', ZOptional ZString), (''address'', ZOptional ZString),
         (''qualification'', ZOptional ZString), (''experience'', ZOptional ZString),
         (''role_id'', ZOptional ZNumber), (''active'', ZOptional ZNumber)])]"

text \<open>
  The body of the \<^verbatim>\<open>try\<close> block. What a case listed in \<open>other_handlers\<close> does after its
  validation is the parameter \<open>rest\<close>, a function of the tool name and the parsed
  arguments.
\<close>

definition tool_body ::
  "'db env \<Rightarrow> (string \<Rightarrow> jsval \<Rightarrow> ('db, response) io) \<Rightarrow> string \<Rightarrow> jsval \<Rightarrow> ('db, response) io"
where
  "tool_body env rest name args =
     (if name = ''create_inquiry'' then create_inquiry env args
      else if name = ''update_inquiry'' then update_inquiry env args
      else if name = ''list_inquiries'' then list_inquiries env args
      else if name = ''create_product_category'' then create_product_category env args
      else if name = ''create_purchase'' then create_purchase env args
      else if name = ''list_reception_configs'' then list_reception_configs env args
      else if name = ''create_reception_config'' then create_reception_config env args
      else if name = ''delete_reception_config'' then delete_reception_config env args
      else (case map_of other_handlers name of
              Some shape \<Rightarrow> thenE (liftE (parse (ZObject shape) args)) (rest name)
            | None \<Rightarrow> throwE (McpError MethodNotFound (''Unknown tool: '' @ name))))"

text \<open>
  The handler of \<^verbatim>\<open>CallToolRequestSchema\<close>: the \<^verbatim>\<open>try\<close> block and its \<^verbatim>\<open>catch\<close>. Everything
  thrown in this file is an instance of \<^verbatim>\<open>Error\<close>, so the message is \<^verbatim>\<open>error.message\<close>.
\<close>

definition CallTool ::
  "'db env \<Rightarrow> (string \<Rightarrow> jsval \<Rightarrow> ('db, response) io) \<Rightarrow> string \<Rightarrow> jsval \<Rightarrow> 'db st
     \<Rightarrow> response \<times> 'db st"
where
  "CallTool env rest name args s =
     (case tool_body env rest name args s of
        (Inl e, s') \<Rightarrow> (error_response (error_message (rt env) e), s')
      | (Inr r, s') \<Rightarrow> (r, s'))"

text \<open>The schema the case of a tool name validates \<^verbatim>\<open>args\<close> against, if there is such a case.\<close>

definition handler_schema :: "string \<Rightarrow> zschema option" where
  "handler_schema name =
     (if name = ''create_inquiry'' then Some create_inquiry_schema
      else if name = ''update_inquiry'' then Some update_inquiry_schema
      else if name = ''list_inquiries'' then Some list_inquiries_schema
      else if name = ''create_product_category'' then Some create_product_category_schema
      else if name = ''create_purchase'' then Some create_purchase_schema
      else if name = ''list_reception_configs'' then Some list_reception_configs_schema
      else if name = ''create_reception_config'' then Some create_reception_config_schema
      else if name = ''delete_reception_config'' then Some delete_reception_config_schema
      else map_option ZObject (map_of other_handlers name))"

section \<open>The advertised tools\<close>

text \<open>
  An entry of the list the handler of \<^verbatim>\<open>ListToolsRequestSchema\<close> returns: the name, the
  properties of the \<^verbatim>\<open>inputSchema\<close> with their JSON-schema types, and its \<^verbatim>\<open>required\<close>
  array. The entries below are the ones the statements of this development refer to.
\<close>

record tool =
  tool_name :: string
  input_properties :: "(string \<times> string) list"
  input_required :: "string list"

definition update_inquiry_tool :: tool where
  "update_inquiry_tool =
     \<lparr>tool_name = ''update_inquiry'',
      input_properties =
        [(''id'', ''number''), (''name'', ''string''), (''mobile_no'', ''string''),
         (''father_name'', ''string''), (''mother_name'', ''string''), (''email'', ''string''),
         (''address'', ''string''), (''response'', ''string''), (''note'', ''string''),
         (''status'', ''string'')],
      input_required = [''id'']\<rparr>"

definition create_product_category_tool :: tool where
  "create_product_category_tool =
     \<lparr>tool_name = ''create_product_category'',
      input_properties = [(''name'', ''string''), (''branch_id'', ''number'')],
      input_required = [''name'', ''branch_id'']\<rparr>"

definition create_homework_tool :: tool where
  "create_homework_tool =
     \<lparr>tool_name = ''create_homework'',
      input_properties =
        [(''class_id'', ''number''), (''section_id'', ''number''), (''subject_id'', ''number''),
         (''homework_date'', ''string''), (''submission_date'', ''string''),
         (''description'', ''string''), (''sms_notification'', ''number''),
         (''created_by'', ''number'')],
      input_required =
        [''class_id'', ''section_id'', ''subject_id'', ''homework_date'', ''submission_date'',
         ''description'']\<rparr>"

section \<open>Notions used in the statements\<close>

text \<open>
  The definitions of this section do not embed code: they are what the statements below
  compare the handlers with.
\<close>

subsection \<open>Schemas\<close>

text \<open>
  A schema is plain when a value it accepts is returned as it is: no default is filled in
  and no key is stripped. A schema is required when it does not accept \<^verbatim>\<open>undefined\<close>.
\<close>

fun plain :: "zschema \<Rightarrow> bool" where
  "plain (ZArray t) = plain t"
| "plain (ZOptional t) = plain t"
| "plain (ZObject fs) = False"
| "plain (ZDefault t d) = False"
| "plain t = True"

fun required :: "zschema \<Rightarrow> bool" where
  "required (ZOptional t) = False"
| "required (ZDefault t d) = False"
| "required ZAny = False"
| "required t = True"

subsection \<open>The update of an inquiry\<close>

text \<open>
  The columns of \<^verbatim>\<open>update_inquiry\<close> whose argument is truthy, and the statement that assigns
  a list of columns.
\<close>

definition supplied_columns :: "jsval \<Rightarrow> string list" where
  "supplied_columns args = filter (\<lambda>c. truthy (jsget args c)) update_inquiry_columns"

definition update_statement :: "string list \<Rightarrow> string" where
  "update_statement cols =
     ''UPDATE enquiry SET '' @ join '', '' (map (\<lambda>c. c @ '' = ?'') cols @ [''updated_at = NOW()''])
       @ '' WHERE id = ?''"

subsection \<open>The listing of inquiries\<close>


text \<open>
  The filters of \<^verbatim>\<open>list_inquiries\<close> that are tested for truthiness, each with the falsy value
  of its type.
\<close>

definition list_inquiries_falsy :: "(string \<times> jsval) list" where
  "list_inquiries_falsy =
     [(''branch_id'', Num 0), (''search'', Str []), (''status'', Str []), (''source_id'', Num 0),
      (''class_id'', Num 0), (''start_date'', Str []), (''end_date'', Str []),
      (''created_by'', Num 0)]"

subsection \<open>The statements of a purchase\<close>











section \<open>Sample environments\<close>

text \<open>
  A runtime, services, a continuation and arguments for the concrete runs below. The
  services keep the number of statements they have committed as their state:
  \<open>write_service\<close> accepts every statement, \<open>down_service\<close> cannot be reached,
  \<open>null_service\<close> replies \<^verbatim>\<open>null\<close>, \<open>budget_service\<close> fails from its third request on, and
  \<open>listing_service\<close> answers a listing with one row, or none when the limit is below 1.
\<close>

definition sample_runtime :: runtime where
  "sample_runtime =
     \<lparr>ToString = (\<lambda>v. ''[value]''),
      ToNumber_other = (\<lambda>v. None),
      JSON_stringify = (\<lambda>v. ''[json]''),
      TypeError_message =
        (\<lambda>v k. ''Cannot read properties of '' @ (if v = Null then ''null'' else ''undefined'')
                 @ '' (reading '' @ k @ '')''),
      ZodError_message = (\<lambda>iss. ''[issues]''),
      McpError_message = (\<lambda>c m. ''MCP error: '' @ m)\<rparr>"

definition sample_env :: "('db \<Rightarrow> http_request \<Rightarrow> http_result \<times> 'db) \<Rightarrow> 'db env" where
  "sample_env svc =
     \<lparr>rt = sample_runtime, store = Str ''key-of-request'', defaultApiKey = ''key-of-process'',
      service = svc\<rparr>"

definition null_service :: "nat \<Rightarrow> http_request \<Rightarrow> http_result \<times> nat" where
  "null_service db req = (Replied Null, db)"

definition write_service :: "nat \<Rightarrow> http_request \<Rightarrow> http_result \<times> nat" where
  "write_service db req = (Replied (Obj [(''affectedRows'', Num 1), (''insertId'', Num 7)]), Suc db)"

definition down_service :: "nat \<Rightarrow> http_request \<Rightarrow> http_result \<times> nat" where
  "down_service db req = (Failed ''Network Error'', db)"

definition no_rest :: "string \<Rightarrow> jsval \<Rightarrow> (nat, response) io" where
  "no_rest name parsed = returnE (text_response [])"




definition limit_of :: "http_request \<Rightarrow> rat" where
  "limit_of req = (case rev (params req) of off # Num l # ps \<Rightarrow> l | _ \<Rightarrow> 0)"

definition listing_service :: "nat \<Rightarrow> http_request \<Rightarrow> http_result \<times> nat" where
  "listing_service db req =
     (if limit_of req < 0
      then (Replied (Obj [(''status'', Str ''error''), (''message'', Str ''syntax error'')]), db)
      else (Replied (Arr (if 1 \<le> limit_of req
                          then [Obj [(''id'', Num 1), (''name'', Str ''Jane'')]] else [])), db))"

section \<open>Sequencing and the proxy\<close>

lemma thenE_liftE_Inl: "thenE (liftE (Inl e)) k s = (Inl e, s)"
  by (simp add: thenE_def liftE_def)

lemma thenE_liftE_Inr: "thenE (liftE (Inr a)) k s = k a s"
  by (simp add: thenE_def liftE_def)

lemma thenE_state:
  "(\<And>r s. snd (k r s) = s) \<Longrightarrow> snd (thenE m k s) = snd (m s)"
  by (cases "m s"; cases "fst (m s)") (auto simp: thenE_def)

lemma returnE_state: "snd (returnE a s) = s"
  by (simp add: returnE_def)

lemma wrap_failure_simps:
  "wrap_failure r (Inl e) = Inl (JsError (''Database operation failed: '' @ error_message r e))"
  "wrap_failure r (Inr x) = Inr x"
  by (simp_all add: wrap_failure_def)

lemma interpret_reply_cases:
  "interpret_reply r d =
     (if nullish d then Inl (TypeError d ''status'')
      else if jsget d ''status'' = Str ''error''
      then Inl (JsError (to_string r (or_else (jsget d ''message'') (Str ''Unknown database error''))))
      else Inr (d, if is_array d then Arr [] else Undefined))"
  by (simp add: interpret_reply_def read_prop_def)

lemma execute_eq:
  "service env db (request_of env q ps) = (res, db') \<Longrightarrow>
   execute env q ps (db, sent) =
     (wrap_failure (rt env)
        (case res of Failed m \<Rightarrow> Inl (JsError m) | Replied d \<Rightarrow> interpret_reply (rt env) d),
      (db', sent @ [request_of env q ps]))"
  by (simp add: execute_def)


lemma execute_sent:
  "snd (snd (execute env q ps (db, sent))) = sent @ [request_of env q ps]"
  by (simp add: execute_def split: prod.splits)

lemma thenE_execute_return_sent:
  "snd (snd (thenE (execute env q ps) (\<lambda>r. returnE (f r)) (db, sent))) = sent @ [request_of env q ps]"
  by (simp add: thenE_state returnE_state execute_sent)



section \<open>Facts about the validator\<close>

lemma parse_error_is_ZodError: "parse sch v = Inl e \<Longrightarrow> \<exists>iss. e = ZodError iss"
  by (auto simp: parse_def split: prod.splits if_splits)

lemma zparse_plain_aux:
  "plain t \<longrightarrow> snd (zparse p t v) = v"
  "plain t' \<longrightarrow> snd (zparse_elems p' t' i xs) = xs"
  "zparse_fields p'' fs kvs = zparse_fields p'' fs kvs"
  by (induction p t v and p' t' i xs and p'' fs kvs rule: zparse_zparse_elems_zparse_fields.induct)
     (auto split: jsval.splits prod.splits)

lemma zparse_plain: "plain t \<Longrightarrow> snd (zparse p t v) = v"
  by (simp add: zparse_plain_aux)

lemma zparse_fields_issues:
  "fst (zparse_fields p fs kvs) =
     concat (map (\<lambda>(k, t). fst (zparse (p @ [Key k]) t (jsget (Obj kvs) k))) fs)"
  by (induction fs) (auto split: prod.splits)

lemma zparse_fields_absent:
  "k \<notin> fst ` set fs \<Longrightarrow> map_of (snd (zparse_fields p fs kvs)) k = None"
  by (induction fs) (auto split: prod.splits)

lemma zparse_fields_output:
  "distinct (map fst fs) \<Longrightarrow> (k, t) \<in> set fs \<Longrightarrow>
   jsget (Obj (snd (zparse_fields p fs kvs))) k = snd (zparse (p @ [Key k]) t (jsget (Obj kvs) k))"
proof (induction fs)
  case Nil
  then show ?case by simp
next
  case (Cons f fs)
  obtain k0 t0 where f: "f = (k0, t0)" by (cases f)
  show ?case
  proof (cases "k = k0")
    case True
    with Cons.prems f have t: "t = t0" and notin: "k0 \<notin> fst ` set fs"
      by (auto simp: image_iff)
    from notin have "map_of (snd (zparse_fields p fs kvs)) k0 = None"
      by (rule zparse_fields_absent)
    with True t f show ?thesis
      by (auto split: prod.splits option.splits)
  next
    case False
    with Cons f show ?thesis
      by (auto split: prod.splits)
  qed
qed

lemma parse_object:
  "parse (ZObject fs) (Obj kvs) =
     (if fst (zparse_fields [] fs kvs) = [] then Inr (Obj (snd (zparse_fields [] fs kvs)))
      else Inl (ZodError (fst (zparse_fields [] fs kvs))))"
  by (simp add: parse_def split: prod.splits)

lemma parse_not_object:
  "\<forall>kvs. v \<noteq> Obj kvs \<Longrightarrow> parse (ZObject fs) v = Inl (ZodError [InvalidType [] ''object'' (parsedType v)])"
  by (cases v) (simp_all add: parse_def)

lemma parse_object_valid:
  assumes "parse (ZObject fs) args = Inr parsed"
  shows "\<exists>kvs. args = Obj kvs \<and> parsed = Obj (snd (zparse_fields [] fs kvs))
           \<and> fst (zparse_fields [] fs kvs) = []"
proof (cases "\<exists>kvs. args = Obj kvs")
  case True
  then obtain kvs where "args = Obj kvs" by blast
  with assms show ?thesis by (auto simp: parse_object split: if_splits)
next
  case False
  then have "parse (ZObject fs) args = Inl (ZodError [InvalidType [] ''object'' (parsedType args)])"
    by (intro parse_not_object) simp
  with assms show ?thesis by simp
qed

lemma parse_field:
  assumes "parse (ZObject fs) args = Inr parsed" and "distinct (map fst fs)" and "(k, t) \<in> set fs"
  shows "fst (zparse [Key k] t (jsget args k)) = []"
    and "jsget parsed k = snd (zparse [Key k] t (jsget args k))"
proof -
  from parse_object_valid [OF assms(1)] obtain kvs where
    a: "args = Obj kvs" and p: "parsed = Obj (snd (zparse_fields [] fs kvs))"
    and ok: "fst (zparse_fields [] fs kvs) = []" by blast
  from ok assms(3) a show "fst (zparse [Key k] t (jsget args k)) = []"
    by (simp add: zparse_fields_issues) force
  from zparse_fields_output [OF assms(2,3), of "[]" kvs] a p
  show "jsget parsed k = snd (zparse [Key k] t (jsget args k))" by simp
qed

lemma parse_plain_field:
  assumes "parse (ZObject fs) args = Inr parsed" and "distinct (map fst fs)" and "(k, t) \<in> set fs"
    and "plain t"
  shows "jsget parsed k = jsget args k"
  using parse_field(2) [OF assms(1-3)] assms(4) by (simp add: zparse_plain)

lemma required_undefined:
  "required t \<Longrightarrow> \<exists>e. zparse p t Undefined = ([InvalidType p e ''undefined''], Undefined)"
  by (cases t) simp_all

lemma missing_required_field:
  assumes "(k, t) \<in> set fs" and "required t" and "map_of kvs k = None"
  shows "\<exists>iss. parse (ZObject fs) (Obj kvs) = Inl (ZodError iss)
           \<and> (\<exists>e. InvalidType [Key k] e ''undefined'' \<in> set iss)"
proof -
  from assms(3) have u: "jsget (Obj kvs) k = Undefined" by simp
  from required_undefined [OF assms(2), of "[Key k]"] obtain e
    where e: "zparse [Key k] t Undefined = ([InvalidType [Key k] e ''undefined''], Undefined)" by blast
  have "InvalidType [Key k] e ''undefined'' \<in> set (fst (zparse_fields [] fs kvs))"
    unfolding zparse_fields_issues using assms(1) u e by force
  then show ?thesis by (auto simp: parse_object)
qed

lemma parse_issues_cong:
  assumes "\<forall>(k, t) \<in> set fs. fst (zparse [Key k] t (jsget (Obj kvs) k))
                               = fst (zparse [Key k] t (jsget (Obj kvs') k))"
  shows "fst (zparse_fields [] fs kvs) = fst (zparse_fields [] fs kvs')"
proof -
  have "map (\<lambda>(k, t). fst (zparse ([] @ [Key k]) t (jsget (Obj kvs) k))) fs
        = map (\<lambda>(k, t). fst (zparse ([] @ [Key k]) t (jsget (Obj kvs') k))) fs"
    using assms by (intro map_cong) auto
  then show ?thesis by (simp only: zparse_fields_issues)
qed

lemma removed_key:
  "map_of kvs' = (map_of kvs)(f := None) \<Longrightarrow>
   jsget (Obj kvs') k = (if k = f then Undefined else jsget (Obj kvs) k)"
  by simp

lemma zparse_enum_ok:
  "fst (zparse p (ZEnum vals) v) = [] \<Longrightarrow> \<exists>s \<in> set vals. v = Str s"
  by (cases v) (auto split: if_splits)

lemma zparse_default_number:
  "fst (zparse p (ZDefault ZNumber (Num d)) v) = [] \<Longrightarrow>
   snd (zparse p (ZDefault ZNumber (Num d)) v) = (if v = Undefined then Num d else v)"
  by (cases v) simp_all






section \<open>Validation comes first\<close>

text \<open>Every case of the \<^verbatim>\<open>switch\<close> validates \<^verbatim>\<open>args\<close> first and only then does the rest.\<close>

lemma validation_first:
  "handler_schema name = Some sch \<Longrightarrow>
   \<exists>k. \<forall>args. tool_body env rest name args = thenE (liftE (parse sch args)) k"
  unfolding handler_schema_def tool_body_def
  by (auto simp: create_inquiry_def update_inquiry_def list_inquiries_def
      create_product_category_def create_purchase_def list_reception_configs_def
      create_reception_config_def delete_reception_config_def split: if_splits)

lemma unknown_tool:
  "handler_schema name = None \<Longrightarrow>
   tool_body env rest name args s = (Inl (McpError MethodNotFound (''Unknown tool: '' @ name)), s)"
  unfolding handler_schema_def tool_body_def
  by (auto simp: throwE_def split: if_splits)

lemma invalid_arguments:
  assumes "handler_schema name = Some sch" and "parse sch args = Inl e"
  shows "tool_body env rest name args s = (Inl e, s)"
proof -
  from validation_first [OF assms(1)] obtain k
    where "tool_body env rest name args = thenE (liftE (parse sch args)) k" by blast
  with assms(2) show ?thesis by (simp add: thenE_liftE_Inl)
qed

text \<open>
  What holds for every case of the \<^verbatim>\<open>switch\<close>: when the arguments omit a field the
  validator of the case requires, the \<^verbatim>\<open>try\<close> block throws a \<^verbatim>\<open>ZodError\<close> with an issue
  whose path is that field, and the state is as it was: nothing has been sent.
\<close>

lemma handler_rejects_missing_field:
  assumes "handler_schema name = Some (ZObject fs)" and "(k, t) \<in> set fs" and "required t"
    and "map_of kvs k = None"
  shows "\<exists>iss. tool_body env rest name (Obj kvs) s = (Inl (ZodError iss), s)
           \<and> (\<exists>e. InvalidType [Key k] e ''undefined'' \<in> set iss)"
proof -
  from missing_required_field [OF assms(2-4)] obtain iss e
    where p: "parse (ZObject fs) (Obj kvs) = Inl (ZodError iss)"
      and i: "InvalidType [Key k] e ''undefined'' \<in> set iss" by blast
  from invalid_arguments [OF assms(1) p] i show ?thesis by blast
qed


text \<open>The validator of every case is an object schema.\<close>

lemma handler_schema_is_object: "handler_schema name = Some sch \<Longrightarrow> \<exists>fs. sch = ZObject fs"
  by (auto simp: handler_schema_def create_inquiry_schema_def update_inquiry_schema_def
      list_inquiries_schema_def create_product_category_schema_def create_purchase_schema_def
      list_reception_configs_schema_def create_reception_config_schema_def
      delete_reception_config_schema_def split: if_splits)



section \<open>Facts about \<^verbatim>\<open>update_inquiry\<close>\<close>

lemma foldl_push_if_set:
  "foldl (push_if_set parsed) (us, vs) cols =
     (us @ map (\<lambda>c. c @ '' = ?'') (filter (\<lambda>c. truthy (jsget parsed c)) cols),
      vs @ map (jsget parsed) (filter (\<lambda>c. truthy (jsget parsed c)) cols))"
  by (induction cols arbitrary: us vs) (simp_all add: push_if_set_def)

lemma update_inquiry_clauses_eq:
  "update_inquiry_clauses parsed =
     (map (\<lambda>c. c @ '' = ?'') (supplied_columns parsed) @ [''updated_at = NOW()''],
      map (jsget parsed) (supplied_columns parsed))"
  by (simp add: update_inquiry_clauses_def foldl_push_if_set supplied_columns_def)

lemma update_inquiry_schema_distinct:
  "update_inquiry_schema = ZObject fs \<Longrightarrow> distinct (map fst fs)"
  by (auto simp: update_inquiry_schema_def)

lemma update_inquiry_parsed:
  assumes "parse update_inquiry_schema args = Inr parsed"
    and "k = ''id'' \<or> k = ''status'' \<or> k \<in> set update_inquiry_columns"
  shows "jsget parsed k = jsget args k"
proof -
  obtain fs where fs: "update_inquiry_schema = ZObject fs" by (simp add: update_inquiry_schema_def)
  from assms(2) fs have "\<exists>t. (k, t) \<in> set fs \<and> plain t"
    by (auto simp: update_inquiry_schema_def update_inquiry_columns_def)
  then obtain t where "(k, t) \<in> set fs" "plain t" by blast
  with parse_plain_field [of fs args parsed k t] assms(1) fs update_inquiry_schema_distinct [OF fs]
  show ?thesis by simp
qed

lemma supplied_columns_parsed:
  assumes "parse update_inquiry_schema args = Inr parsed"
  shows "supplied_columns parsed = supplied_columns args"
    and "map (jsget parsed) (supplied_columns args) = map (jsget args) (supplied_columns args)"
proof -
  show "supplied_columns parsed = supplied_columns args"
    unfolding supplied_columns_def
    by (rule filter_cong [OF refl]) (simp add: update_inquiry_parsed [OF assms])
  show "map (jsget parsed) (supplied_columns args) = map (jsget args) (supplied_columns args)"
    by (rule map_cong [OF refl]) (simp add: update_inquiry_parsed [OF assms] supplied_columns_def)
qed

lemma update_inquiry_valid:
  assumes "parse update_inquiry_schema args = Inr parsed"
  shows "update_inquiry env args =
     (if supplied_columns args = []
      then returnE (text_response ''No fields to update provided.'')
      else thenE (execute env (update_statement (supplied_columns args))
                    (map (jsget args) (supplied_columns args) @ [jsget args ''id''])) (\<lambda>(result, fields).
             if jsget result ''affectedRows'' = Num 0
             then throwE (McpError InvalidRequest
                    (''Inquiry with ID '' @ to_string (rt env) (jsget args ''id'') @ '' not found''))
             else returnE (text_response
                    (''Inquiry '' @ to_string (rt env) (jsget args ''id'') @ '' updated successfully.''))))"
proof -
  have id: "jsget parsed ''id'' = jsget args ''id''"
    using update_inquiry_parsed [OF assms, of "''id''"] by simp
  show ?thesis
    unfolding update_inquiry_def
    by (rule ext)
       (simp add: assms thenE_liftE_Inr update_inquiry_clauses_eq supplied_columns_parsed [OF assms]
          id update_statement_def cong: if_cong)
qed

lemma update_inquiry_invalid:
  "parse update_inquiry_schema args = Inl e \<Longrightarrow> update_inquiry env args s = (Inl e, s)"
  by (simp add: update_inquiry_def thenE_liftE_Inl)

lemma update_inquiry_issues_empty_string:
  assumes "f \<in> set update_inquiry_columns" and "map_of kvs f = Some (Str [])"
    and "map_of kvs' = (map_of kvs)(f := None)" and "update_inquiry_schema = ZObject fs"
  shows "fst (zparse_fields [] fs kvs) = fst (zparse_fields [] fs kvs')"
proof (rule parse_issues_cong, clarify)
  fix k t
  assume kt: "(k, t) \<in> set fs"
  show "fst (zparse [Key k] t (jsget (Obj kvs) k)) = fst (zparse [Key k] t (jsget (Obj kvs') k))"
  proof (cases "k = f")
    case False
    with assms(3) show ?thesis by simp
  next
    case True
    with assms(3) have u: "jsget (Obj kvs') k = Undefined" by simp
    from True assms(2) have v: "jsget (Obj kvs) k = Str []" by simp
    from kt assms(4) have "(k, t) \<in> set [(''id'', ZNumber),
      (''name'', ZOptional ZString),
      (''mobile_no'', ZOptional ZString),
      (''father_name'', ZOptional ZString),
      (''mother_name'', ZOptional ZString),
      (''email'', ZOptional ZString),
      (''address'', ZOptional ZString),
      (''response'', ZOptional ZString),
      (''note'', ZOptional ZString),
      (''status'', ZOptional ZString)]"
      by (simp add: update_inquiry_schema_def)
    with True assms(1) show ?thesis
      unfolding u v update_inquiry_columns_def by auto
  qed
qed

lemma update_inquiry_empty_string_absent:
  assumes f: "f \<in> set update_inquiry_columns" and v: "map_of kvs f = Some (Str [])"
    and r: "map_of kvs' = (map_of kvs)(f := None)"
  shows "update_inquiry env (Obj kvs) = update_inquiry env (Obj kvs')"
proof -
  obtain fs where fs: "update_inquiry_schema = ZObject fs" by (simp add: update_inquiry_schema_def)
  note iss = update_inquiry_issues_empty_string [OF f v r fs]
  show ?thesis
  proof (cases "fst (zparse_fields [] fs kvs) = []")
    case False
    with iss have "parse update_inquiry_schema (Obj kvs) = Inl (ZodError (fst (zparse_fields [] fs kvs)))"
      "parse update_inquiry_schema (Obj kvs') = Inl (ZodError (fst (zparse_fields [] fs kvs)))"
      unfolding fs by (simp_all add: parse_object)
    then show ?thesis by (intro ext) (simp add: update_inquiry_invalid)
  next
    case True
    with iss obtain p p' where p: "parse update_inquiry_schema (Obj kvs) = Inr p"
      and p': "parse update_inquiry_schema (Obj kvs') = Inr p'"
      unfolding fs by (simp add: parse_object)
    have nid: "f \<noteq> ''id''" using f by (auto simp: update_inquiry_columns_def)
    have a: "jsget (Obj kvs') k = (if k = f then Undefined else jsget (Obj kvs) k)" for k
      using r by simp
    have t: "truthy (jsget (Obj kvs') k) = truthy (jsget (Obj kvs) k)" for k
      using r v by (cases "k = f") simp_all
    have j: "jsget (Obj kvs') k = jsget (Obj kvs) k" if "k \<noteq> f" for k
      using r that by simp
    have s: "supplied_columns (Obj kvs') = supplied_columns (Obj kvs)"
      unfolding supplied_columns_def by (rule filter_cong [OF refl]) (rule t)
    have "f \<notin> set (supplied_columns (Obj kvs))"
      using v by (simp add: supplied_columns_def)
    then have m: "map (jsget (Obj kvs')) (supplied_columns (Obj kvs))
                = map (jsget (Obj kvs)) (supplied_columns (Obj kvs))"
      by (intro map_cong [OF refl] j) auto
    have i: "jsget (Obj kvs') ''id'' = jsget (Obj kvs) ''id''" using nid by (intro j) simp
    from update_inquiry_valid [OF p, of env] update_inquiry_valid [OF p', of env]
    show ?thesis by (simp only: s m i)
  qed
qed


section \<open>Facts about \<^verbatim>\<open>list_inquiries\<close>\<close>

lemma add_filter_falsy: "\<not> truthy c \<Longrightarrow> add_filter qp (c, fr, ps) = qp"
  by (simp add: add_filter_def)

lemma foldl_add_filter:
  "foldl add_filter (q, ps) fs =
     (q @ concat (map (\<lambda>(c, fragment, xs). fragment) (filter (\<lambda>(c, fragment, xs). truthy c) fs)),
      ps @ concat (map (\<lambda>(c, fragment, xs). xs) (filter (\<lambda>(c, fragment, xs). truthy c) fs)))"
  by (induction fs arbitrary: q ps) (auto simp: add_filter_def)


lemma list_inquiries_schema_fields:
  "list_inquiries_schema = ZObject fs \<Longrightarrow>
   distinct (map fst fs)
   \<and> (''limit'', ZDefault ZNumber (Num 50)) \<in> set fs
   \<and> (''offset'', ZDefault ZNumber (Num 0)) \<in> set fs
   \<and> (\<forall>kv \<in> set list_inquiries_falsy. \<exists>t. (fst kv, t) \<in> set fs \<and> plain t)"
  by (auto simp: list_inquiries_schema_def list_inquiries_falsy_def)

lemma list_inquiries_parsed:
  assumes "parse list_inquiries_schema args = Inr parsed"
  shows "jsget parsed ''limit'' = (if jsget args ''limit'' = Undefined then Num 50 else jsget args ''limit'')"
    and "jsget parsed ''offset'' = (if jsget args ''offset'' = Undefined then Num 0 else jsget args ''offset'')"
    and "(k, v) \<in> set list_inquiries_falsy \<Longrightarrow> jsget parsed k = jsget args k"
proof -
  obtain fs where fs: "list_inquiries_schema = ZObject fs" by (simp add: list_inquiries_schema_def)
  note F = list_inquiries_schema_fields [OF fs]
  from F have d: "distinct (map fst fs)" by blast
  from assms fs have p: "parse (ZObject fs) args = Inr parsed" by simp
  from F have l: "(''limit'', ZDefault ZNumber (Num 50)) \<in> set fs" by blast
  from parse_field [OF p d l] zparse_default_number
  show "jsget parsed ''limit'' = (if jsget args ''limit'' = Undefined then Num 50 else jsget args ''limit'')"
    by simp
  from F have l: "(''offset'', ZDefault ZNumber (Num 0)) \<in> set fs" by blast
  from parse_field [OF p d l] zparse_default_number
  show "jsget parsed ''offset'' = (if jsget args ''offset'' = Undefined then Num 0 else jsget args ''offset'')"
    by simp
  assume "(k, v) \<in> set list_inquiries_falsy"
  with F obtain t where "(k, t) \<in> set fs" "plain t" by force
  with parse_plain_field [OF p d] show "jsget parsed k = jsget args k" by blast
qed

lemma list_inquiries_valid:
  "parse list_inquiries_schema args = Inr parsed \<Longrightarrow>
   list_inquiries env args =
     thenE (execute env (fst (list_inquiries_query (rt env) parsed))
              (snd (list_inquiries_query (rt env) parsed))) (\<lambda>(rows, fields).
     returnE (text_response (JSON_stringify (rt env) rows)))"
  by (rule ext) (simp add: list_inquiries_def thenE_liftE_Inr)

lemma list_inquiries_invalid:
  "parse list_inquiries_schema args = Inl e \<Longrightarrow> list_inquiries env args s = (Inl e, s)"
  by (simp add: list_inquiries_def thenE_liftE_Inl)

lemma add_filter_skip_cong:
  "x = y \<or> (\<not> truthy (fst x) \<and> \<not> truthy (fst y)) \<Longrightarrow> add_filter qp x = add_filter qp y"
  by (cases x; cases y) (auto simp: add_filter_def)

lemma foldl_add_filter_cong:
  "list_all2 (\<lambda>x y. x = y \<or> (\<not> truthy (fst x) \<and> \<not> truthy (fst y))) xs ys \<Longrightarrow>
   foldl add_filter qp xs = foldl add_filter qp ys"
proof (induction xs ys arbitrary: qp rule: list_all2_induct)
  case Nil
  then show ?case by simp
next
  case (Cons x xs y ys)
  from Cons.hyps(1) have "add_filter qp x = add_filter qp y" by (rule add_filter_skip_cong)
  with Cons.IH show ?case by simp
qed

lemma list_query_falsy_cong:
  assumes eq: "\<forall>kv \<in> set list_inquiries_falsy. fst kv \<noteq> f \<longrightarrow> jsget p (fst kv) = jsget p' (fst kv)"
    and lim: "jsget p ''limit'' = jsget p' ''limit''" and off: "jsget p ''offset'' = jsget p' ''offset''"
    and falsy: "\<not> truthy (jsget p f)" "\<not> truthy (jsget p' f)"
  shows "list_inquiries_query r p = list_inquiries_query r p'"
proof -
  have E: "jsget p k = jsget p' k \<or> (\<not> truthy (jsget p k) \<and> \<not> truthy (jsget p' k))"
    if "k \<in> fst ` set list_inquiries_falsy" for k
    using that eq falsy by (cases "k = f") auto
  have R: "(jsget p k, fr, F (jsget p k)) = (jsget p' k, fr, F (jsget p' k))
           \<or> (\<not> truthy (fst (jsget p k, fr, F (jsget p k)))
                \<and> \<not> truthy (fst (jsget p' k, fr, F (jsget p' k))))"
    if "k \<in> fst ` set list_inquiries_falsy" for k and fr :: string and F :: "jsval \<Rightarrow> jsval list"
    using E [OF that] by auto
  have k: "''branch_id'' \<in> fst ` set list_inquiries_falsy" "''search'' \<in> fst ` set list_inquiries_falsy"
    "''status'' \<in> fst ` set list_inquiries_falsy" "''source_id'' \<in> fst ` set list_inquiries_falsy"
    "''class_id'' \<in> fst ` set list_inquiries_falsy" "''start_date'' \<in> fst ` set list_inquiries_falsy"
    "''end_date'' \<in> fst ` set list_inquiries_falsy" "''created_by'' \<in> fst ` set list_inquiries_falsy"
    by (simp_all add: list_inquiries_falsy_def)
  have "list_all2 (\<lambda>x y. x = y \<or> (\<not> truthy (fst x) \<and> \<not> truthy (fst y)))
          (list_inquiries_filters r p) (list_inquiries_filters r p')"
    unfolding list_inquiries_filters_def
    by (simp only: list_all2_Cons list_all2_Nil simp_thms
      R [OF k(1), of "'' AND e.branch_id = ?''" "\<lambda>v. [v]"]
      R [OF k(2), of "'' AND (e.name LIKE ? OR e.mobile_no LIKE ? OR e.father_name LIKE ?)''"
           "\<lambda>v. [Str (''%'' @ to_string r v @ ''%''), Str (''%'' @ to_string r v @ ''%''),
                 Str (''%'' @ to_string r v @ ''%'')]"]
      R [OF k(3), of "'' AND e.status = ?''" "\<lambda>v. [v]"]
      R [OF k(4), of "'' AND e.reference_id = ?''" "\<lambda>v. [v]"]
      R [OF k(5), of "'' AND e.class_id = ?''" "\<lambda>v. [v]"]
      R [OF k(6), of "'' AND e.date >= ?''" "\<lambda>v. [v]"]
      R [OF k(7), of "'' AND e.date <= ?''" "\<lambda>v. [v]"]
      R [OF k(8), of "'' AND e.created_by = ?''" "\<lambda>v. [v]"])
  then have "foldl add_filter (list_inquiries_base, []) (list_inquiries_filters r p)
           = foldl add_filter (list_inquiries_base, []) (list_inquiries_filters r p')"
    by (rule foldl_add_filter_cong)
  then show ?thesis by (simp add: list_inquiries_query_def lim off)
qed

lemma list_inquiries_issues_falsy:
  assumes "(f, v) \<in> set list_inquiries_falsy" and "map_of kvs f = Some v"
    and "map_of kvs' = (map_of kvs)(f := None)" and "list_inquiries_schema = ZObject fs"
  shows "fst (zparse_fields [] fs kvs) = fst (zparse_fields [] fs kvs')"
proof (rule parse_issues_cong, clarify)
  fix k t
  assume kt: "(k, t) \<in> set fs"
  show "fst (zparse [Key k] t (jsget (Obj kvs) k)) = fst (zparse [Key k] t (jsget (Obj kvs') k))"
  proof (cases "k = f")
    case False
    with assms(3) show ?thesis by simp
  next
    case True
    with assms(3) have u: "jsget (Obj kvs') k = Undefined" by simp
    from True assms(2) have v: "jsget (Obj kvs) k = v" by simp
    from kt assms(4) have "(k, t) \<in> set [(''branch_id'', ZOptional ZNumber),
      (''limit'', ZDefault ZNumber (Num 50)),
      (''offset'', ZDefault ZNumber (Num 0)),
      (''search'', ZOptional ZString),
      (''status'', ZOptional ZString),
      (''source_id'', ZOptional ZNumber),
      (''class_id'', ZOptional ZNumber),
      (''start_date'', ZOptional ZString),
      (''end_date'', ZOptional ZString),
      (''created_by'', ZOptional ZNumber)]"
      by (simp add: list_inquiries_schema_def)
    with True assms(1) show ?thesis
      unfolding u v list_inquiries_falsy_def by auto
  qed
qed

lemma list_inquiries_falsy_absent:
  assumes f: "(f, v) \<in> set list_inquiries_falsy" and v: "map_of kvs f = Some v"
    and r: "map_of kvs' = (map_of kvs)(f := None)"
  shows "list_inquiries env (Obj kvs) = list_inquiries env (Obj kvs')"
proof -
  obtain fs where fs: "list_inquiries_schema = ZObject fs" by (simp add: list_inquiries_schema_def)
  note iss = list_inquiries_issues_falsy [OF f v r fs]
  show ?thesis
  proof (cases "fst (zparse_fields [] fs kvs) = []")
    case False
    with iss have "parse list_inquiries_schema (Obj kvs) = Inl (ZodError (fst (zparse_fields [] fs kvs)))"
      "parse list_inquiries_schema (Obj kvs') = Inl (ZodError (fst (zparse_fields [] fs kvs)))"
      unfolding fs by (simp_all add: parse_object)
    then show ?thesis by (intro ext) (simp add: list_inquiries_invalid)
  next
    case True
    with iss obtain p p' where p: "parse list_inquiries_schema (Obj kvs) = Inr p"
      and p': "parse list_inquiries_schema (Obj kvs') = Inr p'"
      unfolding fs by (simp add: parse_object)
    have nf: "\<not> truthy v" "f \<noteq> ''limit''" "f \<noteq> ''offset''"
      using f by (auto simp: list_inquiries_falsy_def)
    have a: "jsget (Obj kvs') k = (if k = f then Undefined else jsget (Obj kvs) k)" for k
      using r by simp
    have "list_inquiries_query (rt env) p = list_inquiries_query (rt env) p'"
    proof (rule list_query_falsy_cong [where f = f])
      show "\<forall>kv \<in> set list_inquiries_falsy. fst kv \<noteq> f \<longrightarrow> jsget p (fst kv) = jsget p' (fst kv)"
      proof (intro ballI impI)
        fix kv assume kv: "kv \<in> set list_inquiries_falsy" and ne: "fst kv \<noteq> f"
        from kv have m: "(fst kv, snd kv) \<in> set list_inquiries_falsy" by simp
        from list_inquiries_parsed(3) [OF p m] list_inquiries_parsed(3) [OF p' m] ne a
        show "jsget p (fst kv) = jsget p' (fst kv)" by simp
      qed
      show "jsget p ''limit'' = jsget p' ''limit''"
        using list_inquiries_parsed(1) [OF p] list_inquiries_parsed(1) [OF p'] nf(2) a
        by simp
      show "jsget p ''offset'' = jsget p' ''offset''"
        using list_inquiries_parsed(2) [OF p] list_inquiries_parsed(2) [OF p'] nf(3) a
        by simp
      show "\<not> truthy (jsget p f)"
        using list_inquiries_parsed(3) [OF p f] v nf(1) by simp
      show "\<not> truthy (jsget p' f)"
        using list_inquiries_parsed(3) [OF p' f] a by simp
    qed
    with list_inquiries_valid [OF p, of env] list_inquiries_valid [OF p', of env]
    show ?thesis by simp
  qed
qed

lemma list_inquiries_query_unfiltered:
  "list_inquiries_query r (Obj [(''limit'', Num l), (''offset'', Num 0)])
     = (list_inquiries_base @ '' ORDER BY e.date DESC, e.id DESC LIMIT ? OFFSET ?'', [Num l, Num 0])"
  by (simp add: list_inquiries_query_def list_inquiries_filters_def add_filter_falsy)

lemma parse_list_empty:
  "parse list_inquiries_schema (Obj []) = Inr (Obj [(''limit'', Num 50), (''offset'', Num 0)])"
  by code_simp


section \<open>Facts about the reception configuration handlers\<close>

lemma reception_type:
  assumes "parse (ZObject fs) args = Inr parsed" and "distinct (map fst fs)"
    and "(''type'', ZEnum reception_config_types) \<in> set fs"
  shows "\<exists>t \<in> set reception_config_types. jsget args ''type'' = Str t \<and> jsget parsed ''type'' = Str t"
proof -
  from parse_field(1) [OF assms] zparse_enum_ok obtain t
    where t: "t \<in> set reception_config_types" "jsget args ''type'' = Str t" by blast
  from parse_plain_field [OF assms] t show ?thesis by simp
qed

lemma reception_schemas:
  "list_reception_configs_schema = ZObject fs \<or> create_reception_config_schema = ZObject fs
     \<or> delete_reception_config_schema = ZObject fs \<Longrightarrow>
   distinct (map fst fs) \<and> (''type'', ZEnum reception_config_types) \<in> set fs"
  by (auto simp: list_reception_configs_schema_def create_reception_config_schema_def
      delete_reception_config_schema_def)

lemma reception_type_of_schema:
  assumes "sch = list_reception_configs_schema \<or> sch = create_reception_config_schema
     \<or> sch = delete_reception_config_schema"
    and "parse sch args = Inr parsed"
  shows "\<exists>t \<in> set reception_config_types. jsget args ''type'' = Str t \<and> jsget parsed ''type'' = Str t"
proof -
  from assms(1) obtain fs where fs: "sch = ZObject fs"
    by (auto simp: list_reception_configs_schema_def create_reception_config_schema_def
      delete_reception_config_schema_def)
  with assms(1) have "list_reception_configs_schema = ZObject fs
     \<or> create_reception_config_schema = ZObject fs \<or> delete_reception_config_schema = ZObject fs"
    by auto
  from reception_schemas [OF this] assms(2) fs show ?thesis
    by (intro reception_type [of fs]) auto
qed

lemma list_reception_configs_sent:
  assumes "parse list_reception_configs_schema args = Inr parsed"
  shows "\<exists>t \<in> set reception_config_types. \<exists>q ps. jsget args ''type'' = Str t
           \<and> (q = ''SELECT id, name FROM '' @ t \<or> q = ''SELECT id, name FROM '' @ t @ '' WHERE branch_id = ?'')
           \<and> snd (snd (list_reception_configs env args (db, sent))) = sent @ [request_of env q ps]"
proof -
  from reception_type_of_schema [OF _ assms] obtain t
    where t: "t \<in> set reception_config_types" "jsget args ''type'' = Str t"
      "jsget parsed ''type'' = Str t" by blast
  have k: "(\<lambda>(rows, fields). returnE (text_response (JSON_stringify (rt env) rows)))
         = (\<lambda>r. returnE (text_response (JSON_stringify (rt env) (fst r))) :: (_, response) io)"
    by (simp add: case_prod_unfold)
  show ?thesis
  proof (cases "truthy (jsget parsed ''branch_id'')")
    case True
    have "snd (snd (list_reception_configs env args (db, sent)))
            = sent @ [request_of env (''SELECT id, name FROM '' @ t @ '' WHERE branch_id = ?'')
                        [jsget parsed ''branch_id'']]"
      using True t(3)
      by (simp add: list_reception_configs_def assms thenE_liftE_Inr add_filter_def k
          thenE_execute_return_sent)
    with t show ?thesis by blast
  next
    case False
    have "snd (snd (list_reception_configs env args (db, sent)))
            = sent @ [request_of env (''SELECT id, name FROM '' @ t) []]"
      using False t(3)
      by (simp add: list_reception_configs_def assms thenE_liftE_Inr add_filter_def k
          thenE_execute_return_sent)
    with t show ?thesis by blast
  qed
qed

lemma create_reception_config_sent:
  assumes "parse create_reception_config_schema args = Inr parsed"
  shows "\<exists>t \<in> set reception_config_types. \<exists>ps. jsget args ''type'' = Str t
           \<and> snd (snd (create_reception_config env args (db, sent)))
               = sent @ [request_of env (''INSERT INTO '' @ t @ '' (name, branch_id) VALUES (?, ?)'') ps]"
proof -
  from reception_type_of_schema [OF _ assms] obtain t
    where t: "t \<in> set reception_config_types" "jsget args ''type'' = Str t"
      "jsget parsed ''type'' = Str t" by blast
  have "snd (snd (create_reception_config env args (db, sent)))
          = sent @ [request_of env (''INSERT INTO '' @ t @ '' (name, branch_id) VALUES (?, ?)'')
                      [jsget parsed ''name'', or_else (jsget parsed ''branch_id'') (Num 1)]]"
    using t(3)
    by (simp add: create_reception_config_def assms thenE_liftE_Inr case_prod_unfold
        thenE_execute_return_sent)
  with t show ?thesis by blast
qed

lemma delete_reception_config_sent:
  assumes "parse delete_reception_config_schema args = Inr parsed"
  shows "\<exists>t \<in> set reception_config_types. \<exists>ps. jsget args ''type'' = Str t
           \<and> snd (snd (delete_reception_config env args (db, sent)))
               = sent @ [request_of env (''DELETE FROM '' @ t @ '' WHERE id = ?'') ps]"
proof -
  from reception_type_of_schema [OF _ assms] obtain t
    where t: "t \<in> set reception_config_types" "jsget args ''type'' = Str t"
      "jsget parsed ''type'' = Str t" by blast
  have "snd (snd (delete_reception_config env args (db, sent)))
          = sent @ [request_of env (''DELETE FROM '' @ t @ '' WHERE id = ?'') [jsget parsed ''id'']]"
    using t(3)
    by (simp add: delete_reception_config_def assms thenE_liftE_Inr thenE_execute_return_sent)
  with t show ?thesis by blast
qed

lemma rejected_or_sent:
  assumes "\<And>e. parse sch args = Inl e \<Longrightarrow> h (db, sent) = (Inl e, (db, sent))"
    and "\<And>parsed. parse sch args = Inr parsed \<Longrightarrow> P"
  shows "(\<exists>iss. h (db, sent) = (Inl (ZodError iss), (db, sent))) \<or> P"
proof (cases "parse sch args")
  case (Inl e)
  from parse_error_is_ZodError [OF Inl] obtain iss where "e = ZodError iss" ..
  with assms(1) [OF Inl] have "h (db, sent) = (Inl (ZodError iss), (db, sent))" by simp
  then show ?thesis by (intro disjI1 exI)
next
  case (Inr parsed)
  from assms(2) [OF Inr] show ?thesis by (rule disjI2)
qed

lemma list_reception_configs_outcome:
  "(\<exists>iss. list_reception_configs env args (db, sent) = (Inl (ZodError iss), (db, sent)))
      \<or> (\<exists>t \<in> set reception_config_types. \<exists>q ps. jsget args ''type'' = Str t
            \<and> (q = ''SELECT id, name FROM '' @ t
                 \<or> q = ''SELECT id, name FROM '' @ t @ '' WHERE branch_id = ?'')
            \<and> snd (snd (list_reception_configs env args (db, sent))) = sent @ [request_of env q ps])"
proof (rule rejected_or_sent [where sch = list_reception_configs_schema])
  fix e assume "parse list_reception_configs_schema args = Inl e"
  then show "list_reception_configs env args (db, sent) = (Inl e, (db, sent))"
    by (simp add: list_reception_configs_def thenE_liftE_Inl)
next
  fix parsed assume "parse list_reception_configs_schema args = Inr parsed"
  then show "\<exists>t \<in> set reception_config_types. \<exists>q ps. jsget args ''type'' = Str t
            \<and> (q = ''SELECT id, name FROM '' @ t
                 \<or> q = ''SELECT id, name FROM '' @ t @ '' WHERE branch_id = ?'')
            \<and> snd (snd (list_reception_configs env args (db, sent))) = sent @ [request_of env q ps]"
    by (rule list_reception_configs_sent)
qed

lemma create_reception_config_outcome:
  "(\<exists>iss. create_reception_config env args (db, sent) = (Inl (ZodError iss), (db, sent)))
      \<or> (\<exists>t \<in> set reception_config_types. \<exists>ps. jsget args ''type'' = Str t
            \<and> snd (snd (create_reception_config env args (db, sent)))
                = sent @ [request_of env (''INSERT INTO '' @ t @ '' (name, branch_id) VALUES (?, ?)'') ps])"
proof (rule rejected_or_sent [where sch = create_reception_config_schema])
  fix e assume "parse create_reception_config_schema args = Inl e"
  then show "create_reception_config env args (db, sent) = (Inl e, (db, sent))"
    by (simp add: create_reception_config_def thenE_liftE_Inl)
next
  fix parsed assume "parse create_reception_config_schema args = Inr parsed"
  then show "\<exists>t \<in> set reception_config_types. \<exists>ps. jsget args ''type'' = Str t
            \<and> snd (snd (create_reception_config env args (db, sent)))
                = sent @ [request_of env (''INSERT INTO '' @ t @ '' (name, branch_id) VALUES (?, ?)'') ps]"
    by (rule create_reception_config_sent)
qed

lemma delete_reception_config_outcome:
  "(\<exists>iss. delete_reception_config env args (db, sent) = (Inl (ZodError iss), (db, sent)))
      \<or> (\<exists>t \<in> set reception_config_types. \<exists>ps. jsget args ''type'' = Str t
            \<and> snd (snd (delete_reception_config env args (db, sent)))
                = sent @ [request_of env (''DELETE FROM '' @ t @ '' WHERE id = ?'') ps])"
proof (rule rejected_or_sent [where sch = delete_reception_config_schema])
  fix e assume "parse delete_reception_config_schema args = Inl e"
  then show "delete_reception_config env args (db, sent) = (Inl e, (db, sent))"
    by (simp add: delete_reception_config_def thenE_liftE_Inl)
next
  fix parsed assume "parse delete_reception_config_schema args = Inr parsed"
  then show "\<exists>t \<in> set reception_config_types. \<exists>ps. jsget args ''type'' = Str t
            \<and> snd (snd (delete_reception_config env args (db, sent)))
                = sent @ [request_of env (''DELETE FROM '' @ t @ '' WHERE id = ?'') ps]"
    by (rule delete_reception_config_sent)
qed

lemma not_allow_listed:
  assumes "R \<or> (\<exists>t \<in> S. P t)" and "\<And>t. t \<in> S \<Longrightarrow> P t \<Longrightarrow> v = Str t" and "v \<notin> Str ` S"
  shows R
  using assms by auto


section \<open>Facts about \<^verbatim>\<open>create_purchase\<close>\<close>











section \<open>The tool-call handler returns an envelope\<close>

text \<open>
  C1. Whatever the \<^verbatim>\<open>try\<close> block does, the handler returns an envelope: the response of the
  block when it returns one, and otherwise, for the error \<open>e\<close> the block threw, the
  envelope whose content is the text \<^verbatim>\<open>Error: \<close> followed by the message of \<open>e\<close>, with
  \<^verbatim>\<open>isError\<close> true and a text that is not empty. In particular a tool name without a case
  gives the envelope of the \<^verbatim>\<open>Unknown tool\<close> error and leaves the state as it was, a
  validation failure gives the envelope of the \<^verbatim>\<open>ZodError\<close> and leaves the state as it was,
  and a failure of the execution service gives the envelope of the wrapped error.
\<close>

theorem CallTool_returns_envelope:
  "((\<exists>r. tool_body env rest name args s = (Inr r, snd (CallTool env rest name args s))
         \<and> fst (CallTool env rest name args s) = r)
    \<or> (\<exists>e. tool_body env rest name args s = (Inl e, snd (CallTool env rest name args s))
         \<and> fst (CallTool env rest name args s) =
             \<lparr>content = [\<lparr>ctype = ''text'', ctext = ''Error: '' @ error_message (rt env) e\<rparr>],
              isError = Some True\<rparr>
         \<and> ''Error: '' @ error_message (rt env) e \<noteq> []))
   \<and> (handler_schema name = None \<longrightarrow>
        CallTool env rest name args s =
          (error_response (McpError_message (rt env) MethodNotFound (''Unknown tool: '' @ name)), s))
   \<and> (\<forall>sch iss. handler_schema name = Some sch \<and> parse sch args = Inl (ZodError iss) \<longrightarrow>
        CallTool env rest name args s = (error_response (ZodError_message (rt env) iss), s))
   \<and> (\<forall>m s'. tool_body env rest name args s
                 = (Inl (JsError (''Database operation failed: '' @ m)), s') \<longrightarrow>
        CallTool env rest name args s = (error_response (''Database operation failed: '' @ m), s'))"
proof (intro conjI allI impI)
  show "(\<exists>r. tool_body env rest name args s = (Inr r, snd (CallTool env rest name args s))
         \<and> fst (CallTool env rest name args s) = r)
    \<or> (\<exists>e. tool_body env rest name args s = (Inl e, snd (CallTool env rest name args s))
         \<and> fst (CallTool env rest name args s) =
             \<lparr>content = [\<lparr>ctype = ''text'', ctext = ''Error: '' @ error_message (rt env) e\<rparr>],
              isError = Some True\<rparr>
         \<and> ''Error: '' @ error_message (rt env) e \<noteq> [])"
    by (cases "tool_body env rest name args s"; cases "fst (tool_body env rest name args s)")
       (auto simp: CallTool_def error_response_def)
next
  assume "handler_schema name = None"
  then show "CallTool env rest name args s =
          (error_response (McpError_message (rt env) MethodNotFound (''Unknown tool: '' @ name)), s)"
    by (simp add: CallTool_def unknown_tool)
next
  fix sch iss
  assume "handler_schema name = Some sch \<and> parse sch args = Inl (ZodError iss)"
  then show "CallTool env rest name args s = (error_response (ZodError_message (rt env) iss), s)"
    by (simp add: CallTool_def invalid_arguments)
next
  fix m s'
  assume "tool_body env rest name args s = (Inl (JsError (''Database operation failed: '' @ m)), s')"
  then show "CallTool env rest name args s = (error_response (''Database operation failed: '' @ m), s')"
    by (simp add: CallTool_def)
qed

lemma no_case_for_drop_database: "handler_schema ''drop_database'' = None"
  by code_simp

lemma create_inquiry_schema_of_case: "handler_schema ''create_inquiry'' = Some create_inquiry_schema"
  by (simp add: handler_schema_def)

lemma parse_create_inquiry_incomplete:
  "parse create_inquiry_schema (Obj [(''name'', Str ''Jane'')]) =
     Inl (ZodError [InvalidType [Key ''mobile_no''] ''string'' ''undefined'',
                    InvalidType [Key ''date''] ''string'' ''undefined''])"
  by (simp add: parse_def create_inquiry_schema_def)

lemma create_inquiry_service_down:
  "tool_body (sample_env down_service) no_rest ''create_inquiry''
      (Obj [(''name'', Str ''Jane''), (''mobile_no'', Str ''123''), (''date'', Str ''2026-02-01'')])
      (0, [])
   = (Inl (JsError ''Database operation failed: Network Error''),
      (0, [request_of (sample_env down_service) create_inquiry_sql
             [Str ''Jane'', Str ''123'', Str ''2026-02-01'', Null, Null, Null, Null, Null, Null,
              Null, Null, Str ''active'', Num 1, Num 1]]))"
  by (simp add: tool_body_def create_inquiry_def parse_def create_inquiry_schema_def
      thenE_def liftE_def execute_def sample_env_def down_service_def wrap_failure_def
      or_else_def)

theorem CallTool_returns_envelope_witness:
  "CallTool (sample_env write_service) no_rest ''drop_database'' (Obj []) (0, [])
     = (error_response ''MCP error: Unknown tool: drop_database'', (0, []))
   \<and> CallTool (sample_env write_service) no_rest ''create_inquiry'' (Obj [(''name'', Str ''Jane'')]) (0, [])
     = (error_response ''[issues]'', (0, []))
   \<and> fst (CallTool (sample_env down_service) no_rest ''create_inquiry''
        (Obj [(''name'', Str ''Jane''), (''mobile_no'', Str ''123''), (''date'', Str ''2026-02-01'')])
        (0, []))
     = \<lparr>content = [\<lparr>ctype = ''text'', ctext = ''Error: Database operation failed: Network Error''\<rparr>],
        isError = Some True\<rparr>"
proof -
  have "CallTool (sample_env write_service) no_rest ''drop_database'' (Obj []) (0, [])
     = (error_response (McpError_message (rt (sample_env write_service)) MethodNotFound
          (''Unknown tool: '' @ ''drop_database'')), (0, []))"
    using CallTool_returns_envelope [of "sample_env write_service" no_rest "''drop_database''"
          "Obj []" "(0, [])", THEN conjunct2, THEN conjunct1] no_case_for_drop_database
    by (rule mp)
  then have a: "CallTool (sample_env write_service) no_rest ''drop_database'' (Obj []) (0, [])
     = (error_response ''MCP error: Unknown tool: drop_database'', (0, []))"
    by (simp add: sample_env_def sample_runtime_def)
  have "CallTool (sample_env write_service) no_rest ''create_inquiry'' (Obj [(''name'', Str ''Jane'')]) (0, [])
     = (error_response (ZodError_message (rt (sample_env write_service))
          [InvalidType [Key ''mobile_no''] ''string'' ''undefined'',
           InvalidType [Key ''date''] ''string'' ''undefined'']), (0, []))"
    using CallTool_returns_envelope [of "sample_env write_service" no_rest "''create_inquiry''"
          "Obj [(''name'', Str ''Jane'')]" "(0, [])", THEN conjunct2, THEN conjunct2, THEN conjunct1]
      create_inquiry_schema_of_case parse_create_inquiry_incomplete
    by blast
  then have b: "CallTool (sample_env write_service) no_rest ''create_inquiry'' (Obj [(''name'', Str ''Jane'')]) (0, [])
     = (error_response ''[issues]'', (0, []))"
    by (simp add: sample_env_def sample_runtime_def)
  have "CallTool (sample_env down_service) no_rest ''create_inquiry''
        (Obj [(''name'', Str ''Jane''), (''mobile_no'', Str ''123''), (''date'', Str ''2026-02-01'')])
        (0, [])
     = (error_response (''Database operation failed: '' @ ''Network Error''),
        (0, [request_of (sample_env down_service) create_inquiry_sql
             [Str ''Jane'', Str ''123'', Str ''2026-02-01'', Null, Null, Null, Null, Null, Null,
              Null, Null, Str ''active'', Num 1, Num 1]]))"
    using CallTool_returns_envelope [of "sample_env down_service" no_rest "''create_inquiry''"
          "Obj [(''name'', Str ''Jane''), (''mobile_no'', Str ''123''), (''date'', Str ''2026-02-01'')]"
          "(0, [])", THEN conjunct2, THEN conjunct2, THEN conjunct2] create_inquiry_service_down
    by simp
  then have c: "fst (CallTool (sample_env down_service) no_rest ''create_inquiry''
        (Obj [(''name'', Str ''Jane''), (''mobile_no'', Str ''123''), (''date'', Str ''2026-02-01'')])
        (0, []))
     = \<lparr>content = [\<lparr>ctype = ''text'', ctext = ''Error: Database operation failed: Network Error''\<rparr>],
        isError = Some True\<rparr>"
    by (simp add: error_response_def)
  from a b c show ?thesis by blast
qed


section \<open>Validation precedes every statement\<close>




subsection \<open>The advertised contract and the validator\<close>

text \<open>
  The advertised contract of \<^verbatim>\<open>create_product_category\<close> lists \<^verbatim>\<open>branch_id\<close> among its
  required fields, but the validator of the case takes it as optional: a call that omits
  it passes validation and the \<^verbatim>\<open>INSERT\<close> is sent, with the branch 1.
\<close>

lemma create_product_category_without_branch_id:
  "''branch_id'' \<in> set (input_required create_product_category_tool)
   \<and> jsget (Obj [(''name'', Str ''Stationery'')]) ''branch_id'' = Undefined
   \<and> CallTool (sample_env write_service) no_rest ''create_product_category''
        (Obj [(''name'', Str ''Stationery'')]) (0, [])
     = (text_response ''Product category created. ID: [value]'',
        (1, [\<lparr>api_key = Str ''key-of-request'',
              sql = ''INSERT INTO product_category (name, branch_id) VALUES (?, ?)'',
              params = [Str ''Stationery'', Num 1]\<rparr>]))"
  by code_simp

text \<open>
  The tool \<^verbatim>\<open>create_homework\<close> is advertised with six required fields and has no case in
  the \<^verbatim>\<open>switch\<close>: a call that omits them is answered with the \<^verbatim>\<open>Unknown tool\<close> error.
\<close>

lemma create_homework_has_no_handler:
  "tool_name create_homework_tool = ''create_homework''
   \<and> ''class_id'' \<in> set (input_required create_homework_tool)
   \<and> CallTool (sample_env write_service) no_rest ''create_homework'' (Obj []) (0, [])
     = (error_response ''MCP error: Unknown tool: create_homework'', (0, []))"
  by code_simp


section \<open>The SQL proxy: when \<^verbatim>\<open>execute\<close> throws\<close>

text \<open>
  C4, as the code has it. \<^verbatim>\<open>execute\<close> throws exactly when the POST fails, or the reply is
  \<^verbatim>\<open>null\<close> or \<^verbatim>\<open>undefined\<close> (the read of \<^verbatim>\<open>data.status\<close> throws), or the reply carries the
  status \<^verbatim>\<open>'error'\<close>. What it throws is an \<^verbatim>\<open>Error\<close> whose message is
  \<^verbatim>\<open>Database operation failed: \<close> followed by the message of the underlying error (for the
  status \<^verbatim>\<open>'error'\<close>: \<^verbatim>\<open>data.message\<close>, or \<^verbatim>\<open>Unknown database error\<close> when that is falsy).
  Otherwise it returns \<^verbatim>\<open>[data, []]\<close> when the reply is an array and \<^verbatim>\<open>[data, undefined]\<close>
  when it is not. In every case exactly one request has been sent.
\<close>

theorem execute_throws_exactly:
  "service env db (request_of env q ps) = (res, db') \<Longrightarrow>
   (isl (fst (execute env q ps (db, sent))) \<longleftrightarrow>
      (\<exists>m. res = Failed m) \<or> res = Replied Null \<or> res = Replied Undefined
      \<or> (\<exists>d. res = Replied d \<and> jsget d ''status'' = Str ''error''))
   \<and> (\<forall>m. res = Failed m \<longrightarrow>
         fst (execute env q ps (db, sent)) = Inl (JsError (''Database operation failed: '' @ m)))
   \<and> (\<forall>d. res = Replied d \<and> nullish d \<longrightarrow>
         fst (execute env q ps (db, sent)) =
           Inl (JsError (''Database operation failed: '' @ TypeError_message (rt env) d ''status'')))
   \<and> (\<forall>d. res = Replied d \<and> jsget d ''status'' = Str ''error'' \<longrightarrow>
         fst (execute env q ps (db, sent)) =
           Inl (JsError (''Database operation failed: ''
                  @ to_string (rt env) (or_else (jsget d ''message'') (Str ''Unknown database error'')))))
   \<and> (\<forall>d. res = Replied d \<and> \<not> nullish d \<and> jsget d ''status'' \<noteq> Str ''error'' \<longrightarrow>
         fst (execute env q ps (db, sent)) = Inr (d, if is_array d then Arr [] else Undefined))
   \<and> snd (execute env q ps (db, sent)) = (db', sent @ [request_of env q ps])"
  by (cases res) (auto simp: execute_eq wrap_failure_simps interpret_reply_cases nullish_def)

theorem execute_throws_exactly_witness:
  "fst (execute (sample_env write_service) ''DELETE FROM enquiry WHERE id = ?'' [Num 3] (0, []))
     = Inr (Obj [(''affectedRows'', Num 1), (''insertId'', Num 7)], Undefined)
   \<and> fst (execute (sample_env down_service) ''SELECT 1'' [] (0, []))
     = Inl (JsError ''Database operation failed: Network Error'')
   \<and> snd (execute (sample_env write_service) ''DELETE FROM enquiry WHERE id = ?'' [Num 3] (0, []))
     = (1, [\<lparr>api_key = Str ''key-of-request'', sql = ''DELETE FROM enquiry WHERE id = ?'',
            params = [Num 3]\<rparr>])"
  using execute_throws_exactly [of "sample_env write_service" 0
          "''DELETE FROM enquiry WHERE id = ?''" "[Num 3]"
          "Replied (Obj [(''affectedRows'', Num 1), (''insertId'', Num 7)])" 1 "[]"]
        execute_throws_exactly [of "sample_env down_service" 0 "''SELECT 1''" "[]"
          "Failed ''Network Error''" 0 "[]"]
  by (simp add: sample_env_def write_service_def down_service_def request_of_def or_else_def
      nullish_def)

text \<open>
  The POST succeeds with the JSON body \<^verbatim>\<open>null\<close>, which carries no status \<^verbatim>\<open>'error'\<close>, and
  \<^verbatim>\<open>execute\<close> throws all the same.
\<close>

theorem execute_throws_on_null_reply:
  "service (sample_env null_service) 0 (request_of (sample_env null_service) ''SELECT 1'' [])
     = (Replied Null, 0)
   \<and> jsget Null ''status'' \<noteq> Str ''error''
   \<and> fst (execute (sample_env null_service) ''SELECT 1'' [] (0, []))
       = Inl (JsError ''Database operation failed: Cannot read properties of null (reading status)'')"
  by (simp add: execute_def sample_env_def null_service_def wrap_failure_def interpret_reply_def
      read_prop_def nullish_def sample_runtime_def)


section \<open>\<^verbatim>\<open>create_purchase\<close>: the statements sent\<close>








section \<open>\<^verbatim>\<open>update_inquiry\<close>: the partial update\<close>

text \<open>
  C6, as the code has it. For a call that passes validation, the \<^verbatim>\<open>SET\<close> list of the
  \<^verbatim>\<open>UPDATE\<close> holds, in the order of the handler, exactly the columns among \<^verbatim>\<open>name\<close>,
  \<^verbatim>\<open>mobile_no\<close>, \<^verbatim>\<open>father_name\<close>, \<^verbatim>\<open>mother_name\<close>, \<^verbatim>\<open>email\<close>, \<^verbatim>\<open>address\<close>, \<^verbatim>\<open>response\<close> and
  \<^verbatim>\<open>note\<close> whose argument is truthy (supplied and not the empty string), each bound to the
  value supplied, followed by \<^verbatim>\<open>updated_at = NOW()\<close>; the last parameter is the id. No
  other column of these eight is assigned. When none of them is supplied with a truthy
  value the handler sends no statement, leaves the state as it was and answers
  \<^verbatim>\<open>No fields to update provided.\<close>
\<close>

theorem update_inquiry_partial_update:
  assumes "parse update_inquiry_schema args = Inr parsed"
  shows "(supplied_columns args = [] \<longrightarrow>
            update_inquiry env args s = (Inr (text_response ''No fields to update provided.''), s))
       \<and> (supplied_columns args \<noteq> [] \<longrightarrow>
            update_inquiry env args =
              thenE (execute env (update_statement (supplied_columns args))
                       (map (jsget args) (supplied_columns args) @ [jsget args ''id''])) (\<lambda>(result, fields).
                if jsget result ''affectedRows'' = Num 0
                then throwE (McpError InvalidRequest
                       (''Inquiry with ID '' @ to_string (rt env) (jsget args ''id'') @ '' not found''))
                else returnE (text_response
                       (''Inquiry '' @ to_string (rt env) (jsget args ''id'') @ '' updated successfully.''))))
       \<and> (\<forall>c. c \<in> set (supplied_columns args) \<longleftrightarrow>
                c \<in> set update_inquiry_columns \<and> truthy (jsget args c))"
  using update_inquiry_valid [OF assms, of env]
  by (simp add: returnE_def supplied_columns_def)

lemma parse_update_sample:
  "parse update_inquiry_schema
     (Obj [(''id'', Num 5), (''name'', Str ''Jane''), (''email'', Str [])])
   = Inr (Obj [(''id'', Num 5), (''name'', Str ''Jane''), (''email'', Str [])])"
  by code_simp

lemma supplied_sample:
  "supplied_columns (Obj [(''id'', Num 5), (''name'', Str ''Jane''), (''email'', Str [])]) = [''name'']"
  by code_simp

theorem update_inquiry_partial_update_witness:
  "update_inquiry (sample_env write_service)
     (Obj [(''id'', Num 5), (''name'', Str ''Jane''), (''email'', Str [])]) (0, [])
   = (Inr (text_response ''Inquiry [value] updated successfully.''),
      (1, [\<lparr>api_key = Str ''key-of-request'',
            sql = ''UPDATE enquiry SET name = ?, updated_at = NOW() WHERE id = ?'',
            params = [Str ''Jane'', Num 5]\<rparr>]))"
proof -
  have "update_inquiry (sample_env write_service)
          (Obj [(''id'', Num 5), (''name'', Str ''Jane''), (''email'', Str [])])
        = thenE (execute (sample_env write_service) (update_statement [''name''])
                   (map (jsget (Obj [(''id'', Num 5), (''name'', Str ''Jane''), (''email'', Str [])]))
                      [''name'']
                    @ [jsget (Obj [(''id'', Num 5), (''name'', Str ''Jane''), (''email'', Str [])]) ''id'']))
            (\<lambda>(result, fields).
                if jsget result ''affectedRows'' = Num 0
                then throwE (McpError InvalidRequest
                       (''Inquiry with ID '' @ to_string (rt (sample_env write_service))
                          (jsget (Obj [(''id'', Num 5), (''name'', Str ''Jane''), (''email'', Str [])]) ''id'')
                          @ '' not found''))
                else returnE (text_response
                       (''Inquiry '' @ to_string (rt (sample_env write_service))
                          (jsget (Obj [(''id'', Num 5), (''name'', Str ''Jane''), (''email'', Str [])]) ''id'')
                          @ '' updated successfully.'')))"
    using update_inquiry_partial_update [OF parse_update_sample, of "sample_env write_service" "(0, [])",
        THEN conjunct2, THEN conjunct1]
    by (simp add: supplied_sample)
  then show ?thesis
    by (simp add: thenE_def execute_def request_of_def sample_env_def write_service_def
        wrap_failure_def interpret_reply_def read_prop_def nullish_def or_else_def
        sample_runtime_def update_statement_def returnE_def text_response_def)
qed

text \<open>
  The name is supplied, as the empty string, and the handler sends no \<^verbatim>\<open>UPDATE\<close> at all:
  the stored name does not become the supplied value.
\<close>

theorem update_inquiry_ignores_empty_name:
  "jsget (Obj [(''id'', Num 5), (''name'', Str [])]) ''name'' = Str []
   \<and> update_inquiry (sample_env write_service) (Obj [(''id'', Num 5), (''name'', Str [])]) (0, [])
       = (Inr (text_response ''No fields to update provided.''), (0, []))"
  by code_simp


section \<open>\<^verbatim>\<open>list_inquiries\<close>: default pagination\<close>






section \<open>The reception configuration handlers: the table name\<close>

text \<open>
  C8. Each of \<^verbatim>\<open>list_reception_configs\<close>, \<^verbatim>\<open>create_reception_config\<close> and
  \<^verbatim>\<open>delete_reception_config\<close> either rejects the arguments with a \<^verbatim>\<open>ZodError\<close> and sends
  nothing, the state being as it was, or sends exactly one statement, whose text is the
  fixed template of the handler with a table name that is one of the five allow-listed
  values and is the \<^verbatim>\<open>type\<close> argument; the other arguments go to the parameters, not to the
  text. When the \<^verbatim>\<open>type\<close> argument is not one of the five values, all three reject.
\<close>

theorem reception_config_tables_allow_listed:
  "((\<exists>iss. list_reception_configs env args (db, sent) = (Inl (ZodError iss), (db, sent)))
      \<or> (\<exists>t \<in> set reception_config_types. \<exists>q ps. jsget args ''type'' = Str t
            \<and> (q = ''SELECT id, name FROM '' @ t
                 \<or> q = ''SELECT id, name FROM '' @ t @ '' WHERE branch_id = ?'')
            \<and> snd (snd (list_reception_configs env args (db, sent))) = sent @ [request_of env q ps]))
   \<and> ((\<exists>iss. create_reception_config env args (db, sent) = (Inl (ZodError iss), (db, sent)))
      \<or> (\<exists>t \<in> set reception_config_types. \<exists>ps. jsget args ''type'' = Str t
            \<and> snd (snd (create_reception_config env args (db, sent)))
                = sent @ [request_of env (''INSERT INTO '' @ t @ '' (name, branch_id) VALUES (?, ?)'') ps]))
   \<and> ((\<exists>iss. delete_reception_config env args (db, sent) = (Inl (ZodError iss), (db, sent)))
      \<or> (\<exists>t \<in> set reception_config_types. \<exists>ps. jsget args ''type'' = Str t
            \<and> snd (snd (delete_reception_config env args (db, sent)))
                = sent @ [request_of env (''DELETE FROM '' @ t @ '' WHERE id = ?'') ps]))
   \<and> (jsget args ''type'' \<notin> Str ` set reception_config_types \<longrightarrow>
        (\<exists>iss. list_reception_configs env args (db, sent) = (Inl (ZodError iss), (db, sent)))
        \<and> (\<exists>iss. create_reception_config env args (db, sent) = (Inl (ZodError iss), (db, sent)))
        \<and> (\<exists>iss. delete_reception_config env args (db, sent) = (Inl (ZodError iss), (db, sent))))"
proof (intro conjI impI)
  show "(\<exists>iss. list_reception_configs env args (db, sent) = (Inl (ZodError iss), (db, sent)))
      \<or> (\<exists>t \<in> set reception_config_types. \<exists>q ps. jsget args ''type'' = Str t
            \<and> (q = ''SELECT id, name FROM '' @ t
                 \<or> q = ''SELECT id, name FROM '' @ t @ '' WHERE branch_id = ?'')
            \<and> snd (snd (list_reception_configs env args (db, sent))) = sent @ [request_of env q ps])"
    by (rule list_reception_configs_outcome)
  show "(\<exists>iss. create_reception_config env args (db, sent) = (Inl (ZodError iss), (db, sent)))
      \<or> (\<exists>t \<in> set reception_config_types. \<exists>ps. jsget args ''type'' = Str t
            \<and> snd (snd (create_reception_config env args (db, sent)))
                = sent @ [request_of env (''INSERT INTO '' @ t @ '' (name, branch_id) VALUES (?, ?)'') ps])"
    by (rule create_reception_config_outcome)
  show "(\<exists>iss. delete_reception_config env args (db, sent) = (Inl (ZodError iss), (db, sent)))
      \<or> (\<exists>t \<in> set reception_config_types. \<exists>ps. jsget args ''type'' = Str t
            \<and> snd (snd (delete_reception_config env args (db, sent)))
                = sent @ [request_of env (''DELETE FROM '' @ t @ '' WHERE id = ?'') ps])"
    by (rule delete_reception_config_outcome)
next
  assume n: "jsget args ''type'' \<notin> Str ` set reception_config_types"
  show "\<exists>iss. list_reception_configs env args (db, sent) = (Inl (ZodError iss), (db, sent))"
    by (rule not_allow_listed [OF list_reception_configs_outcome _ n]) (elim exE conjE)
  show "\<exists>iss. create_reception_config env args (db, sent) = (Inl (ZodError iss), (db, sent))"
    by (rule not_allow_listed [OF create_reception_config_outcome _ n]) (elim exE conjE)
  show "\<exists>iss. delete_reception_config env args (db, sent) = (Inl (ZodError iss), (db, sent))"
    by (rule not_allow_listed [OF delete_reception_config_outcome _ n]) (elim exE conjE)
qed

theorem reception_config_tables_allow_listed_witness:
  "Str ''enquiry; DROP TABLE staff'' \<notin> Str ` set reception_config_types
   \<and> (\<exists>iss. delete_reception_config (sample_env write_service)
          (Obj [(''type'', Str ''enquiry; DROP TABLE staff''), (''id'', Num 1)]) (0, [])
        = (Inl (ZodError iss), (0, [])))
   \<and> snd (create_reception_config (sample_env write_service)
          (Obj [(''type'', Str ''visitor_purpose''), (''name'', Str ''Delivery'')]) (0, []))
       = (1, [\<lparr>api_key = Str ''key-of-request'',
               sql = ''INSERT INTO visitor_purpose (name, branch_id) VALUES (?, ?)'',
               params = [Str ''Delivery'', Num 1]\<rparr>])"
proof -
  have n: "jsget (Obj [(''type'', Str ''enquiry; DROP TABLE staff''), (''id'', Num 1)]) ''type''
             \<notin> Str ` set reception_config_types"
    by (simp add: reception_config_types_def image_iff)
  then have a: "Str ''enquiry; DROP TABLE staff'' \<notin> Str ` set reception_config_types" by simp
  from reception_config_tables_allow_listed [of "sample_env write_service"
      "Obj [(''type'', Str ''enquiry; DROP TABLE staff''), (''id'', Num 1)]" 0 "[]",
      THEN conjunct2, THEN conjunct2, THEN conjunct2, THEN mp, OF n, THEN conjunct2, THEN conjunct2]
  have b: "\<exists>iss. delete_reception_config (sample_env write_service)
          (Obj [(''type'', Str ''enquiry; DROP TABLE staff''), (''id'', Num 1)]) (0, [])
        = (Inl (ZodError iss), (0, []))" .
  have c: "snd (create_reception_config (sample_env write_service)
          (Obj [(''type'', Str ''visitor_purpose''), (''name'', Str ''Delivery'')]) (0, []))
       = (1, [\<lparr>api_key = Str ''key-of-request'',
               sql = ''INSERT INTO visitor_purpose (name, branch_id) VALUES (?, ?)'',
               params = [Str ''Delivery'', Num 1]\<rparr>])"
    by code_simp
  from a b c show ?thesis by (intro conjI)
qed

section \<open>\<^verbatim>\<open>update_inquiry\<close> and the status\<close>

text \<open>
  C9. The advertised input schema of \<^verbatim>\<open>update_inquiry\<close> has an optional property
  \<^verbatim>\<open>status\<close> and the validator of the handler accepts an optional \<^verbatim>\<open>status\<close>, yet the clause
  list the handler builds never holds \<^verbatim>\<open>status = ?\<close>: every statement the handler sends is
  an \<^verbatim>\<open>UPDATE\<close> that assigns columns among the eight of \<open>update_inquiry_columns\<close> (and
  \<^verbatim>\<open>updated_at\<close>), none of which is \<^verbatim>\<open>status\<close>. A valid call that supplies none of the eight
  columns, such as one with only \<^verbatim>\<open>id\<close> and \<^verbatim>\<open>status\<close>, answers
  \<^verbatim>\<open>No fields to update provided.\<close> and sends nothing.
\<close>

theorem update_inquiry_never_assigns_status:
  "(''status'', ''string'') \<in> set (input_properties update_inquiry_tool)
   \<and> ''status'' \<notin> set (input_required update_inquiry_tool)
   \<and> (\<exists>fs. update_inquiry_schema = ZObject fs \<and> (''status'', ZOptional ZString) \<in> set fs)
   \<and> ''status = ?'' \<notin> set (fst (update_inquiry_clauses parsed))
   \<and> (\<forall>req \<in> set (snd (snd (update_inquiry env args (db, sent)))).
         req \<in> set sent \<or>
         (\<exists>cols. set cols \<subseteq> set update_inquiry_columns \<and> ''status'' \<notin> set cols
            \<and> sql req = update_statement cols))
   \<and> ((\<exists>p. parse update_inquiry_schema args = Inr p)
        \<and> (\<forall>c \<in> set update_inquiry_columns. jsget args c = Undefined) \<longrightarrow>
        update_inquiry env args (db, sent)
          = (Inr (text_response ''No fields to update provided.''), (db, sent)))"
proof (intro conjI)
  show "(''status'', ''string'') \<in> set (input_properties update_inquiry_tool)"
    by (simp add: update_inquiry_tool_def)
  show "''status'' \<notin> set (input_required update_inquiry_tool)"
    by (simp add: update_inquiry_tool_def)
  show "\<exists>fs. update_inquiry_schema = ZObject fs \<and> (''status'', ZOptional ZString) \<in> set fs"
    by (simp add: update_inquiry_schema_def)
  show "''status = ?'' \<notin> set (fst (update_inquiry_clauses parsed))"
    by (auto simp: update_inquiry_clauses_eq supplied_columns_def update_inquiry_columns_def)
  have cols: "set (supplied_columns args) \<subseteq> set update_inquiry_columns"
    "''status'' \<notin> set (supplied_columns args)"
    by (auto simp: supplied_columns_def update_inquiry_columns_def)
  show "\<forall>req \<in> set (snd (snd (update_inquiry env args (db, sent)))).
         req \<in> set sent \<or>
         (\<exists>cols. set cols \<subseteq> set update_inquiry_columns \<and> ''status'' \<notin> set cols
            \<and> sql req = update_statement cols)"
  proof (cases "parse update_inquiry_schema args")
    case (Inl e)
    then show ?thesis by (simp add: update_inquiry_invalid)
  next
    case (Inr p)
    show ?thesis
    proof (cases "supplied_columns args = []")
      case True
      with update_inquiry_valid [OF Inr, of env] show ?thesis by (simp add: returnE_def)
    next
      case False
      obtain res db' where ex: "service env db (request_of env (update_statement (supplied_columns args))
             (map (jsget args) (supplied_columns args) @ [jsget args ''id''])) = (res, db')"
        by (cases "service env db (request_of env (update_statement (supplied_columns args))
             (map (jsget args) (supplied_columns args) @ [jsget args ''id'']))")
      have "snd (snd (update_inquiry env args (db, sent)))
              = sent @ [request_of env (update_statement (supplied_columns args))
                          (map (jsget args) (supplied_columns args) @ [jsget args ''id''])]"
        using False update_inquiry_valid [OF Inr, of env] execute_eq [OF ex, of sent]
        by (auto simp: thenE_def throwE_def returnE_def split: sum.splits prod.splits)
      with cols show ?thesis by (auto simp: request_of_def)
    qed
  qed
  show "(\<exists>p. parse update_inquiry_schema args = Inr p)
        \<and> (\<forall>c \<in> set update_inquiry_columns. jsget args c = Undefined) \<longrightarrow>
        update_inquiry env args (db, sent)
          = (Inr (text_response ''No fields to update provided.''), (db, sent))"
  proof (intro impI, elim conjE exE)
    fix p
    assume p: "parse update_inquiry_schema args = Inr p"
      and u: "\<forall>c \<in> set update_inquiry_columns. jsget args c = Undefined"
    from u have "supplied_columns args = []" by (auto simp: supplied_columns_def filter_empty_conv)
    with update_inquiry_valid [OF p, of env] show "update_inquiry env args (db, sent)
          = (Inr (text_response ''No fields to update provided.''), (db, sent))"
      by (simp add: returnE_def)
  qed
qed

theorem update_inquiry_never_assigns_status_witness:
  "update_inquiry (sample_env write_service) (Obj [(''id'', Num 5), (''status'', Str ''dead'')]) (0, [])
     = (Inr (text_response ''No fields to update provided.''), (0, []))"
proof -
  have "parse update_inquiry_schema (Obj [(''id'', Num 5), (''status'', Str ''dead'')])
          = Inr (Obj [(''id'', Num 5), (''status'', Str ''dead'')])"
    by code_simp
  moreover have "\<forall>c \<in> set update_inquiry_columns.
              jsget (Obj [(''id'', Num 5), (''status'', Str ''dead'')]) c = Undefined"
    by code_simp
  ultimately show ?thesis
    using update_inquiry_never_assigns_status [of Undefined "sample_env write_service"
      "Obj [(''id'', Num 5), (''status'', Str ''dead'')]" 0 "[]"]
    by blast
qed


section \<open>Falsy optional arguments\<close>

text \<open>
  C10, as the code has it. An optional argument that a handler tests by truthiness is
  treated as absent when it is supplied with the falsy value of its type: for
  \<^verbatim>\<open>list_inquiries\<close> and each of its filters \<^verbatim>\<open>branch_id\<close>, \<^verbatim>\<open>search\<close>, \<^verbatim>\<open>status\<close>,
  \<^verbatim>\<open>source_id\<close>, \<^verbatim>\<open>class_id\<close>, \<^verbatim>\<open>start_date\<close>, \<^verbatim>\<open>end_date\<close> and \<^verbatim>\<open>created_by\<close>, a call with
  the filter at 0 (or the empty string) behaves exactly as the call without it, and a
  falsy \<^verbatim>\<open>branch_id\<close> adds no branch predicate to the query; for \<^verbatim>\<open>update_inquiry\<close> and each
  of its eight columns, a call with the column at the empty string behaves exactly as the
  call without it. Here \<open>kvs'\<close> is \<open>kvs\<close> without the key \<open>f\<close>.
\<close>

theorem falsy_optional_treated_as_absent:
  assumes "map_of kvs' = (map_of kvs)(f := None)"
  shows "((f, v) \<in> set list_inquiries_falsy \<and> map_of kvs f = Some v \<longrightarrow>
            list_inquiries env (Obj kvs) = list_inquiries env (Obj kvs'))
       \<and> (f \<in> set update_inquiry_columns \<and> map_of kvs f = Some (Str []) \<longrightarrow>
            update_inquiry env (Obj kvs) = update_inquiry env (Obj kvs'))
       \<and> (\<not> truthy (jsget parsed ''branch_id'') \<longrightarrow>
            list_inquiries_query r parsed =
              (case foldl add_filter (list_inquiries_base, []) (tl (list_inquiries_filters r parsed)) of
                 (query, ps) \<Rightarrow>
                   (query @ '' ORDER BY e.date DESC, e.id DESC LIMIT ? OFFSET ?'',
                    ps @ [jsget parsed ''limit'', jsget parsed ''offset''])))"
proof (intro conjI impI)
  assume "(f, v) \<in> set list_inquiries_falsy \<and> map_of kvs f = Some v"
  with assms show "list_inquiries env (Obj kvs) = list_inquiries env (Obj kvs')"
    by (blast intro: list_inquiries_falsy_absent)
next
  assume "f \<in> set update_inquiry_columns \<and> map_of kvs f = Some (Str [])"
  with assms show "update_inquiry env (Obj kvs) = update_inquiry env (Obj kvs')"
    by (blast intro: update_inquiry_empty_string_absent)
next
  assume "\<not> truthy (jsget parsed ''branch_id'')"
  then show "list_inquiries_query r parsed =
              (case foldl add_filter (list_inquiries_base, []) (tl (list_inquiries_filters r parsed)) of
                 (query, ps) \<Rightarrow>
                   (query @ '' ORDER BY e.date DESC, e.id DESC LIMIT ? OFFSET ?'',
                    ps @ [jsget parsed ''limit'', jsget parsed ''offset'']))"
    by (simp add: list_inquiries_query_def list_inquiries_filters_def add_filter_falsy)
qed

theorem falsy_optional_treated_as_absent_witness:
  "list_inquiries (sample_env listing_service) (Obj [(''branch_id'', Num 0)])
     = list_inquiries (sample_env listing_service) (Obj [])
   \<and> update_inquiry (sample_env write_service) (Obj [(''id'', Num 5), (''name'', Str [])])
     = update_inquiry (sample_env write_service) (Obj [(''id'', Num 5)])"
proof -
  have a: "map_of [] = (map_of [(''branch_id'', Num 0)])(''branch_id'' := None)"
    by (rule ext) simp
  have b: "map_of [(''id'', Num 5)] = (map_of [(''id'', Num 5), (''name'', Str [])])(''name'' := None)"
    by (rule ext) simp
  have c: "(''branch_id'', Num 0) \<in> set list_inquiries_falsy \<and>
           map_of [(''branch_id'', Num 0)] ''branch_id'' = Some (Num 0)"
    by (simp add: list_inquiries_falsy_def)
  have d: "''name'' \<in> set update_inquiry_columns \<and>
           map_of [(''id'', Num 5), (''name'', Str [])] ''name'' = Some (Str [])"
    by (simp add: update_inquiry_columns_def)
  from falsy_optional_treated_as_absent [OF a, where v = "Num 0"
      and env = "sample_env listing_service", THEN conjunct1] c
  have 1: "list_inquiries (sample_env listing_service) (Obj [(''branch_id'', Num 0)])
     = list_inquiries (sample_env listing_service) (Obj [])" by (rule mp)
  from falsy_optional_treated_as_absent [OF b, where env = "sample_env write_service",
      THEN conjunct2, THEN conjunct1] d
  have 2: "update_inquiry (sample_env write_service) (Obj [(''id'', Num 5), (''name'', Str [])])
     = update_inquiry (sample_env write_service) (Obj [(''id'', Num 5)])" by (rule mp)
  from 1 2 show ?thesis by (rule conjI)
qed

text \<open>
  \<^verbatim>\<open>limit\<close> is an optional argument of \<^verbatim>\<open>list_inquiries\<close> that is not tested by truthiness:
  supplied as 0, which is falsy, it is bound to \<^verbatim>\<open>LIMIT\<close> as it is, where the call without
  it binds 50.
\<close>

lemma parse_list_limit_zero:
  "parse list_inquiries_schema (Obj [(''limit'', Num 0)])
     = Inr (Obj [(''limit'', Num 0), (''offset'', Num 0)])"
  by code_simp

lemma list_inquiries_sample_run:
  assumes "parse list_inquiries_schema args = Inr (Obj [(''limit'', Num l), (''offset'', Num 0)])"
  shows "snd (snd (list_inquiries (sample_env listing_service) args (0, [])))
       = [\<lparr>api_key = Str ''key-of-request'',
           sql = list_inquiries_base @ '' ORDER BY e.date DESC, e.id DESC LIMIT ? OFFSET ?'',
           params = [Num l, Num 0]\<rparr>]"
proof -
  let ?q = "list_inquiries_base @ '' ORDER BY e.date DESC, e.id DESC LIMIT ? OFFSET ?''"
  let ?env = "sample_env listing_service :: nat env"
  have "snd (snd (list_inquiries ?env args (0, [])))
          = snd (snd (execute ?env ?q [Num l, Num 0] (0, [])))"
    by (cases "execute ?env ?q [Num l, Num 0] (0, [])")
       (auto simp: list_inquiries_valid [OF assms] list_inquiries_query_unfiltered thenE_def
          returnE_def sample_env_def split: sum.splits)
  also have "\<dots> = [] @ [request_of ?env ?q [Num l, Num 0]]"
    by (rule execute_sent)
  finally show ?thesis
    by (simp add: request_of_def or_else_def sample_env_def)
qed

theorem list_inquiries_limit_zero_is_not_absent:
  "\<not> truthy (Num 0)
   \<and> snd (snd (list_inquiries (sample_env listing_service) (Obj [(''limit'', Num 0)]) (0, [])))
       = [\<lparr>api_key = Str ''key-of-request'',
           sql = list_inquiries_base @ '' ORDER BY e.date DESC, e.id DESC LIMIT ? OFFSET ?'',
           params = [Num 0, Num 0]\<rparr>]
   \<and> snd (snd (list_inquiries (sample_env listing_service) (Obj []) (0, [])))
       = [\<lparr>api_key = Str ''key-of-request'',
           sql = list_inquiries_base @ '' ORDER BY e.date DESC, e.id DESC LIMIT ? OFFSET ?'',
           params = [Num 50, Num 0]\<rparr>]"
  by (simp add: list_inquiries_sample_run [OF parse_list_limit_zero]
      list_inquiries_sample_run [OF parse_list_empty])

end
